theory Spec2Isabelle
  imports Complex_Main "HOL-Library.AList"
begin

section \<open>JavaScript values used by the search engine\<close>

text \<open>
  Strings are byte strings holding the UTF-8 encoding of the JavaScript text. Times are
  the integers returned by \<^verbatim>\<open>Date.now()\<close> (milliseconds); every operation reads the
  clock once, so the several \<^verbatim>\<open>Date.now()\<close> calls inside one synchronous method see the
  same value \<open>now\<close>. A JavaScript \<^verbatim>\<open>Map\<close> is an association list in insertion order:
  \<^verbatim>\<open>Map.set\<close> is \<^const>\<open>AList.update\<close> (an existing key keeps its position, a new key goes
  to the end), \<^verbatim>\<open>Map.get\<close> is \<^const>\<open>map_of\<close>, \<^verbatim>\<open>Map.delete\<close> is \<^const>\<open>AList.delete\<close>.
\<close>

subsection \<open>String.prototype.trim, toLowerCase, includes\<close>

text \<open>
  \<^verbatim>\<open>trim\<close> removes WhiteSpace and LineTerminator code points from both ends: U+0009 to
  U+000D and U+0020 (one byte), U+00A0 (two bytes), U+1680, U+2000 to U+200A, U+2028, U+2029,
  U+202F, U+205F, U+3000 and U+FEFF (three bytes).
\<close>

definition white_space1 :: "char \<Rightarrow> bool" where
  "white_space1 a = (a \<in> set [CHR 0x09, CHR 0x0A, CHR 0x0B, CHR 0x0C, CHR 0x0D, CHR 0x20])"

definition white_space2 :: "char \<Rightarrow> char \<Rightarrow> bool" where
  "white_space2 a b = (a = CHR 0xC2 \<and> b = CHR 0xA0)"

definition white_space3 :: "char \<Rightarrow> char \<Rightarrow> char \<Rightarrow> bool" where
  "white_space3 a b c =
     ((a = CHR 0xE1 \<and> b = CHR 0x9A \<and> c = CHR 0x80)
    \<or> (a = CHR 0xE2 \<and> b = CHR 0x80 \<and>
         (c \<in> set [CHR 0x80, CHR 0x81, CHR 0x82, CHR 0x83, CHR 0x84, CHR 0x85, CHR 0x86,
                   CHR 0x87, CHR 0x88, CHR 0x89, CHR 0x8A, CHR 0xA8, CHR 0xA9, CHR 0xAF]))
    \<or> (a = CHR 0xE2 \<and> b = CHR 0x81 \<and> c = CHR 0x9F)
    \<or> (a = CHR 0xE3 \<and> b = CHR 0x80 \<and> c = CHR 0x80)
    \<or> (a = CHR 0xEF \<and> b = CHR 0xBB \<and> c = CHR 0xBF))"

text \<open>
  One scanner serves both ends: \<open>w2\<close> and \<open>w3\<close> recognise a two- and a three-byte white
  space in the order the bytes are met (forwards at the start, backwards at the end).
\<close>

fun strip_white_space ::
  "(char \<Rightarrow> char \<Rightarrow> bool) \<Rightarrow> (char \<Rightarrow> char \<Rightarrow> char \<Rightarrow> bool) \<Rightarrow> string \<Rightarrow> string" where
  "strip_white_space w2 w3 (a # b # c # s) =
     (if white_space1 a then strip_white_space w2 w3 (b # c # s)
      else if w2 a b then strip_white_space w2 w3 (c # s)
      else if w3 a b c then strip_white_space w2 w3 s
      else a # b # c # s)"
| "strip_white_space w2 w3 [a, b] =
     (if white_space1 a then strip_white_space w2 w3 [b]
      else if w2 a b then [] else [a, b])"
| "strip_white_space w2 w3 [a] = (if white_space1 a then [] else [a])"
| "strip_white_space w2 w3 [] = []"

definition trimStart :: "string \<Rightarrow> string" where
  "trimStart s = strip_white_space white_space2 white_space3 s"

definition trimEnd :: "string \<Rightarrow> string" where
  "trimEnd s =
     rev (strip_white_space (\<lambda>b a. white_space2 a b) (\<lambda>c b a. white_space3 a b c) (rev s))"

definition trim :: "string \<Rightarrow> string" where
  "trim s = trimEnd (trimStart s)"

text \<open>
  \<^verbatim>\<open>toLowerCase\<close> on the ASCII letters; bytes of other code points are kept (the Unicode
  case tables are not part of the model).
\<close>

definition toLowerCase :: "string \<Rightarrow> string" where
  "toLowerCase s =
     map (\<lambda>c. case map_of (zip ''ABCDEFGHIJKLMNOPQRSTUVWXYZ'' ''abcdefghijklmnopqrstuvwxyz'') c of
                Some l \<Rightarrow> l
              | None \<Rightarrow> c) s"

fun startsWith :: "string \<Rightarrow> string \<Rightarrow> bool" where
  "startsWith s [] = True"
| "startsWith [] (p # ps) = False"
| "startsWith (c # s) (p # ps) = (c = p \<and> startsWith s ps)"

fun includes_str :: "string \<Rightarrow> string \<Rightarrow> bool" where
  "includes_str [] sub = (sub = [])"
| "includes_str (c # s) sub = (startsWith (c # s) sub \<or> includes_str s sub)"

subsection \<open>Numbers\<close>

text \<open>
  A JavaScript number is an IEEE 754 double; the model holds the rational number it denotes.
  \<open>round_double x\<close> is the double nearest to \<open>x\<close>, ties going to the even significand: with
  \<open>2 ^ e \<le> \<bar>x\<bar> < 2 ^ (e + 1)\<close> the doubles around \<open>x\<close> are the multiples of \<open>2 ^ (e - 52)\<close>,
  and of \<open>2 ^ (- 1074)\<close> in the subnormal range (magnitudes from \<open>2 ^ 1024\<close> on, which round to
  infinity, do not occur here). The operators \<^verbatim>\<open>/\<close> and \<^verbatim>\<open>*\<close> give the exact result rounded in
  this way. \<open>bit_length n\<close> is the number of binary digits of \<open>n\<close>.
\<close>

fun bit_length :: "nat \<Rightarrow> nat" where
  "bit_length n = (if n = 0 then 0 else Suc (bit_length (n div 2)))"

definition floor_log2 :: "rat \<Rightarrow> int" where
  "floor_log2 a =
     (if a \<ge> 1 then int (bit_length (nat \<lfloor>a\<rfloor>)) - 1
      else - int (bit_length (nat (\<lceil>1 / a\<rceil> - 1))))"

definition round_half_even :: "rat \<Rightarrow> int" where
  "round_half_even m =
     (let f = \<lfloor>m\<rfloor>; d = m - of_int f
      in if d < 1 / 2 then f else if d > 1 / 2 then f + 1 else if even f then f else f + 1)"

definition pow2 :: "int \<Rightarrow> rat" where
  "pow2 k = (if k \<ge> 0 then 2 ^ nat k else 1 / 2 ^ nat (- k))"

definition round_double :: "rat \<Rightarrow> rat" where
  "round_double x =
     (if x = 0 then 0
      else (let a = \<bar>x\<bar>;
                e = max (floor_log2 a) (- 1022);
                ulp = pow2 (e - 52)
            in sgn x * of_int (round_half_even (a / ulp)) * ulp))"

definition double_div :: "rat \<Rightarrow> rat \<Rightarrow> rat" where
  "double_div x y = round_double (x / y)"

definition double_mul :: "rat \<Rightarrow> rat \<Rightarrow> rat" where
  "double_mul x y = round_double (x * y)"

section \<open>SearchCache (src/js/searchCache.js)\<close>

record 'a cache_entry =
  data :: 'a
  createdAt :: int
  lastAccessed :: int
  expiresAt :: int
  entry_size :: nat

text \<open>
  \<open>calculateSize\<close> is the method \<^verbatim>\<open>this.calculateSize\<close> (the length of the JSON text of
  the payload); the model takes it as given.
\<close>

record 'a SearchCache =
  cache :: "(string \<times> 'a cache_entry) list"
  maxSize :: nat
  defaultTTL :: int
  cleanupInterval :: int
  calculateSize :: "'a \<Rightarrow> nat"

definition new_SearchCache :: "('a \<Rightarrow> nat) \<Rightarrow> 'a SearchCache" where
  "new_SearchCache csize =
     \<lparr>cache = [], maxSize = 100, defaultTTL = 5 * 60 * 1000, cleanupInterval = 60 * 1000,
      calculateSize = csize\<rparr>"

definition generateCacheKey :: "string \<Rightarrow> string \<Rightarrow> string \<Rightarrow> string" where
  "generateCacheKey engine query language =
     (let normalizedQuery = trim (toLowerCase query)
      in engine @ '':'' @ language @ '':'' @ normalizedQuery)"

text \<open>\<^verbatim>\<open>get\<close>: \<open>None\<close> is the \<^verbatim>\<open>null\<close> of a miss.\<close>

definition get_cache :: "int \<Rightarrow> string \<Rightarrow> 'a SearchCache \<Rightarrow> 'a option \<times> 'a SearchCache" where
  "get_cache now key c =
     (case map_of (cache c) key of
        None \<Rightarrow> (None, c)
      | Some entry \<Rightarrow>
          if now > expiresAt entry
          then (None, c\<lparr>cache := AList.delete key (cache c)\<rparr>)
          else (Some (data entry),
                c\<lparr>cache := AList.update key (entry\<lparr>lastAccessed := now\<rparr>) (cache c)\<rparr>))"

text \<open>
  \<^verbatim>\<open>evictLRU\<close>: the loop keeps \<open>(oldestKey, oldestTime)\<close>, starting from
  \<^verbatim>\<open>(null, Date.now())\<close>; \<^verbatim>\<open>if (oldestKey)\<close> is false for \<^verbatim>\<open>null\<close> and for the empty string.
\<close>

fun evictLRU_loop ::
  "(string \<times> 'a cache_entry) list \<Rightarrow> string option \<times> int \<Rightarrow> string option \<times> int" where
  "evictLRU_loop [] (oldestKey, oldestTime) = (oldestKey, oldestTime)"
| "evictLRU_loop ((key, entry) # rest) (oldestKey, oldestTime) =
     (if lastAccessed entry < oldestTime
      then evictLRU_loop rest (Some key, lastAccessed entry)
      else evictLRU_loop rest (oldestKey, oldestTime))"

definition evictLRU :: "int \<Rightarrow> 'a SearchCache \<Rightarrow> 'a SearchCache" where
  "evictLRU now c =
     (case fst (evictLRU_loop (cache c) (None, now)) of
        None \<Rightarrow> c
      | Some oldestKey \<Rightarrow>
          if oldestKey = [] then c else c\<lparr>cache := AList.delete oldestKey (cache c)\<rparr>)"

text \<open>\<^verbatim>\<open>set\<close>: \<^verbatim>\<open>ttl || this.defaultTTL\<close> takes the default for \<^verbatim>\<open>null\<close> and for 0.\<close>

definition set_cache ::
  "int \<Rightarrow> string \<Rightarrow> 'a \<Rightarrow> int option \<Rightarrow> 'a SearchCache \<Rightarrow> 'a SearchCache" where
  "set_cache now key d ttl c =
     (let expires = now + (case ttl of None \<Rightarrow> defaultTTL c
                                     | Some t \<Rightarrow> if t = 0 then defaultTTL c else t);
          entry = \<lparr>data = d, createdAt = now, lastAccessed = now, expiresAt = expires,
                   entry_size = calculateSize c d\<rparr>;
          c' = (if length (cache c) \<ge> maxSize c then evictLRU now c else c)
      in c'\<lparr>cache := AList.update key entry (cache c')\<rparr>)"

definition delete_cache :: "string \<Rightarrow> 'a SearchCache \<Rightarrow> bool \<times> 'a SearchCache" where
  "delete_cache key c =
     (map_of (cache c) key \<noteq> None, c\<lparr>cache := AList.delete key (cache c)\<rparr>)"

definition clear_cache :: "'a SearchCache \<Rightarrow> 'a SearchCache" where
  "clear_cache c = c\<lparr>cache := []\<rparr>"

definition has_cache :: "int \<Rightarrow> string \<Rightarrow> 'a SearchCache \<Rightarrow> bool \<times> 'a SearchCache" where
  "has_cache now key c =
     (case map_of (cache c) key of
        None \<Rightarrow> (False, c)
      | Some entry \<Rightarrow>
          if now > expiresAt entry
          then (False, c\<lparr>cache := AList.delete key (cache c)\<rparr>)
          else (True, c))"

definition cleanup :: "int \<Rightarrow> 'a SearchCache \<Rightarrow> 'a SearchCache" where
  "cleanup now c = c\<lparr>cache := filter (\<lambda>(key, entry). \<not> now > expiresAt entry) (cache c)\<rparr>"

subsection \<open>Statistics\<close>

record memory_usage =
  used :: nat
  percentage :: rat

record cache_stats =
  totalEntries :: nat
  validEntries :: nat
  expiredEntries :: nat
  totalSize :: nat
  stats_maxSize :: nat
  hitRate :: rat
  memoryUsage :: memory_usage

text \<open>
  The counts that are divided are integers far below \<open>2 ^ 53\<close> and so doubles themselves;
  the quotient and the product are rounded as JavaScript rounds them.
\<close>

definition calculateHitRate :: "int \<Rightarrow> 'a SearchCache \<Rightarrow> rat" where
  "calculateHitRate now c =
     (let validEntries = length (filter (\<lambda>entry. now \<le> expiresAt entry) (map snd (cache c)))
      in if length (cache c) > 0
         then double_mul (double_div (of_nat validEntries) (of_nat (length (cache c)))) 100
         else 0)"

definition getMemoryUsage :: "'a SearchCache \<Rightarrow> memory_usage" where
  "getMemoryUsage c =
     \<lparr>used = sum_list (map (\<lambda>entry. entry_size entry) (map snd (cache c))),
      percentage = (if maxSize c > 0
                    then double_mul (double_div (of_nat (length (cache c))) (of_nat (maxSize c))) 100
                    else 0)\<rparr>"

definition getStats :: "int \<Rightarrow> 'a SearchCache \<Rightarrow> cache_stats" where
  "getStats now c =
     \<lparr>totalEntries = length (cache c),
      validEntries = length (filter (\<lambda>(key, entry). \<not> now > expiresAt entry) (cache c)),
      expiredEntries = length (filter (\<lambda>(key, entry). now > expiresAt entry) (cache c)),
      totalSize = sum_list (map (\<lambda>(key, entry). entry_size entry) (cache c)),
      stats_maxSize = maxSize c,
      hitRate = calculateHitRate now c,
      memoryUsage = getMemoryUsage c\<rparr>"

subsection \<open>Settings, export and import\<close>

record cache_settings =
  settings_maxSize :: "nat option"
  settings_defaultTTL :: "int option"
  settings_cleanupInterval :: "int option"

definition updateSettings :: "cache_settings \<Rightarrow> 'a SearchCache \<Rightarrow> 'a SearchCache" where
  "updateSettings settings c =
     (let c1 = (case settings_maxSize settings of
                  Some m \<Rightarrow> if m > 0 then c\<lparr>maxSize := m\<rparr> else c | None \<Rightarrow> c);
          c2 = (case settings_defaultTTL settings of
                  Some t \<Rightarrow> if t > 0 then c1\<lparr>defaultTTL := t\<rparr> else c1 | None \<Rightarrow> c1)
      in (case settings_cleanupInterval settings of
            Some i \<Rightarrow> if i > 0 then c2\<lparr>cleanupInterval := i\<rparr> else c2 | None \<Rightarrow> c2))"

record 'a export_entry =
  export_key :: string
  export_data :: 'a
  export_createdAt :: int
  export_expiresAt :: int

record 'a export_snapshot =
  export_timestamp :: int
  entries :: "'a export_entry list"

definition export_cache :: "int \<Rightarrow> 'a SearchCache \<Rightarrow> 'a export_snapshot" where
  "export_cache now c =
     \<lparr>export_timestamp = now,
      entries = map (\<lambda>(key, entry). \<lparr>export_key = key, export_data = data entry,
                                      export_createdAt = createdAt entry,
                                      export_expiresAt = expiresAt entry\<rparr>)
                    (filter (\<lambda>(key, entry). now \<le> expiresAt entry) (cache c))\<rparr>"

text \<open>
  A thrown value: an \<^verbatim>\<open>Error\<close> object with its \<^verbatim>\<open>name\<close> and \<^verbatim>\<open>message\<close>, and the \<^verbatim>\<open>status\<close>
  property some callers attach (\<open>None\<close> when it is undefined).
\<close>

record js_error =
  err_name :: string
  err_message :: string
  err_status :: "int option"

definition Error :: "string \<Rightarrow> js_error" where
  "Error msg = \<lparr>err_name = ''Error'', err_message = msg, err_status = None\<rparr>"

text \<open>The text of the error thrown by \<^verbatim>\<open>import\<close> for a snapshot without entries.\<close>

definition msg_invalid_import :: string where
  "msg_invalid_import =
     [CHR 0xE7, CHR 0x84, CHR 0xA1, CHR 0xE5, CHR 0x8A, CHR 0xB9, CHR 0xE3, CHR 0x81, CHR 0xAA,
      CHR 0xE3, CHR 0x82, CHR 0xA4, CHR 0xE3, CHR 0x83, CHR 0xB3, CHR 0xE3, CHR 0x83, CHR 0x9D,
      CHR 0xE3, CHR 0x83, CHR 0xBC, CHR 0xE3, CHR 0x83, CHR 0x88, CHR 0xE3, CHR 0x83, CHR 0x87,
      CHR 0xE3, CHR 0x83, CHR 0xBC, CHR 0xE3, CHR 0x82, CHR 0xBF, CHR 0xE3, CHR 0x81, CHR 0xA7,
      CHR 0xE3, CHR 0x81, CHR 0x99]"

text \<open>
  \<^verbatim>\<open>import\<close>: the \<^verbatim>\<open>forEach\<close> body stores each entry that has not expired with
  \<^verbatim>\<open>this.cache.set\<close>, the \<^verbatim>\<open>Map\<close> method; \<open>None\<close> is a snapshot that is \<^verbatim>\<open>null\<close> or has
  no \<^verbatim>\<open>entries\<close>.
\<close>

fun import_loop ::
  "int \<Rightarrow> 'a export_entry list \<Rightarrow> nat \<times> 'a SearchCache \<Rightarrow> nat \<times> 'a SearchCache" where
  "import_loop now [] (importedCount, c) = (importedCount, c)"
| "import_loop now (entryData # rest) (importedCount, c) =
     (if now \<le> export_expiresAt entryData
      then (let entry = \<lparr>data = export_data entryData,
                         createdAt = export_createdAt entryData,
                         lastAccessed = now,
                         expiresAt = export_expiresAt entryData,
                         entry_size = calculateSize c (export_data entryData)\<rparr>
            in import_loop now rest
                 (importedCount + 1, c\<lparr>cache := AList.update (export_key entryData) entry (cache c)\<rparr>))
      else import_loop now rest (importedCount, c))"

definition import_cache ::
  "int \<Rightarrow> 'a export_snapshot option \<Rightarrow> 'a SearchCache \<Rightarrow> js_error + nat \<times> 'a SearchCache" where
  "import_cache now exportData c =
     (case exportData of
        None \<Rightarrow> Inl (Error msg_invalid_import)
      | Some snapshot \<Rightarrow> Inr (import_loop now (entries snapshot) (0, c)))"

section \<open>ErrorHandler (src/js/errorHandler.js)\<close>

text \<open>
  The record built by the \<^verbatim>\<open>handle...Error\<close> methods. \<open>info_statusCode\<close> is \<open>None\<close> where
  the property is absent or \<^verbatim>\<open>null\<close>; \<open>info_shouldRetry\<close> is \<open>False\<close> and \<open>info_retryDelay\<close> is
  \<open>None\<close>
  where \<^verbatim>\<open>handleEngineError\<close> leaves them undefined. The display text \<^verbatim>\<open>userMessage\<close> is
  not part of the model.
\<close>

record error_info =
  info_type :: string
  info_engine :: string
  info_message :: string
  info_statusCode :: "int option"
  info_timestamp :: int
  info_shouldRetry :: bool
  info_retryDelay :: "int option"

record ErrorHandler =
  errorLog :: "error_info list"
  maxLogSize :: nat
  retryAttempts :: "(string \<times> nat) list"
  maxRetries :: nat

definition new_ErrorHandler :: ErrorHandler where
  "new_ErrorHandler = \<lparr>errorLog = [], maxLogSize = 100, retryAttempts = [], maxRetries = 3\<rparr>"

definition logError :: "error_info \<Rightarrow> ErrorHandler \<Rightarrow> ErrorHandler" where
  "logError errorInfo eh =
     (let pushed = errorLog eh @ [errorInfo]
      in eh\<lparr>errorLog := (if length pushed > maxLogSize eh then tl pushed else pushed)\<rparr>)"

definition handleNetworkError ::
  "int \<Rightarrow> js_error \<Rightarrow> string \<Rightarrow> ErrorHandler \<Rightarrow> error_info \<times> ErrorHandler" where
  "handleNetworkError now error engine eh =
     (let errorInfo = \<lparr>info_type = ''network'', info_engine = engine,
                         info_message = err_message error, info_statusCode = None,
                         info_timestamp = now, info_shouldRetry = False, info_retryDelay = None\<rparr>
      in (errorInfo, logError errorInfo eh))"

definition handleAPIError ::
  "int \<Rightarrow> js_error \<Rightarrow> string \<Rightarrow> ErrorHandler \<Rightarrow> error_info \<times> ErrorHandler" where
  "handleAPIError now error engine eh =
     (let errorInfo = \<lparr>info_type = ''api'', info_engine = engine,
                         info_message = err_message error,
                         info_statusCode = (case err_status error of
                                              None \<Rightarrow> None
                                            | Some s \<Rightarrow> if s = 0 then None else Some s),
                         info_timestamp = now, info_shouldRetry = False, info_retryDelay = None\<rparr>
      in (errorInfo, logError errorInfo eh))"

definition handleParsingError ::
  "int \<Rightarrow> js_error \<Rightarrow> string \<Rightarrow> ErrorHandler \<Rightarrow> error_info \<times> ErrorHandler" where
  "handleParsingError now error engine eh =
     (let errorInfo = \<lparr>info_type = ''parsing'', info_engine = engine,
                         info_message = err_message error, info_statusCode = None,
                         info_timestamp = now, info_shouldRetry = False, info_retryDelay = None\<rparr>
      in (errorInfo, logError errorInfo eh))"

definition handleCORSError ::
  "int \<Rightarrow> js_error \<Rightarrow> string \<Rightarrow> ErrorHandler \<Rightarrow> error_info \<times> ErrorHandler" where
  "handleCORSError now error engine eh =
     (let errorInfo = \<lparr>info_type = ''cors'', info_engine = engine,
                         info_message = err_message error, info_statusCode = None,
                         info_timestamp = now, info_shouldRetry = False, info_retryDelay = None\<rparr>
      in (errorInfo, logError errorInfo eh))"

definition handleTimeoutError ::
  "int \<Rightarrow> js_error \<Rightarrow> string \<Rightarrow> ErrorHandler \<Rightarrow> error_info \<times> ErrorHandler" where
  "handleTimeoutError now error engine eh =
     (let errorInfo = \<lparr>info_type = ''timeout'', info_engine = engine,
                         info_message = err_message error, info_statusCode = None,
                         info_timestamp = now, info_shouldRetry = False, info_retryDelay = None\<rparr>
      in (errorInfo, logError errorInfo eh))"

definition handleGeneralError ::
  "int \<Rightarrow> js_error \<Rightarrow> string \<Rightarrow> ErrorHandler \<Rightarrow> error_info \<times> ErrorHandler" where
  "handleGeneralError now error engine eh =
     (let errorInfo = \<lparr>info_type = ''general'', info_engine = engine,
                         info_message = (if err_message error = [] then ''Unknown error''
                                         else err_message error),
                         info_statusCode = None,
                         info_timestamp = now, info_shouldRetry = False, info_retryDelay = None\<rparr>
      in (errorInfo, logError errorInfo eh))"

definition getRetryAttempts :: "ErrorHandler \<Rightarrow> string \<Rightarrow> nat" where
  "getRetryAttempts eh engine = (case map_of (retryAttempts eh) engine of None \<Rightarrow> 0 | Some n \<Rightarrow> n)"

definition shouldRetry :: "ErrorHandler \<Rightarrow> string \<Rightarrow> string \<Rightarrow> bool" where
  "shouldRetry eh engine errorType =
     (let retryableErrors = [''network'', ''timeout'', ''api'']
      in if errorType \<notin> set retryableErrors then False
         else (let currentAttempts = getRetryAttempts eh engine
               in currentAttempts < maxRetries eh))"

definition recordRetryAttempt :: "string \<Rightarrow> ErrorHandler \<Rightarrow> ErrorHandler" where
  "recordRetryAttempt engine eh =
     (let currentAttempts = getRetryAttempts eh engine
      in eh\<lparr>retryAttempts := AList.update engine (currentAttempts + 1) (retryAttempts eh)\<rparr>)"

definition resetRetryAttempts :: "string \<Rightarrow> ErrorHandler \<Rightarrow> ErrorHandler" where
  "resetRetryAttempts engine eh = eh\<lparr>retryAttempts := AList.delete engine (retryAttempts eh)\<rparr>"

definition getRetryDelay :: "ErrorHandler \<Rightarrow> string \<Rightarrow> int" where
  "getRetryDelay eh engine =
     (let attempts = getRetryAttempts eh engine
      in min (1000 * 2 ^ attempts) 10000)"

definition clearErrorLog :: "ErrorHandler \<Rightarrow> ErrorHandler" where
  "clearErrorLog eh = eh\<lparr>errorLog := [], retryAttempts := []\<rparr>"

text \<open>
  \<^verbatim>\<open>handleEngineError\<close>: the classification chain in the order of the source, then the retry
  decision on the handler as it is after logging. \<^verbatim>\<open>error.status\<close> is truthy when it is
  defined and not 0. The record that gets \<^verbatim>\<open>shouldRetry\<close> and \<^verbatim>\<open>retryDelay\<close> is the object
  \<^verbatim>\<open>logError\<close> has just pushed, so the last entry of the log changes with it (when the log
  still holds it).
\<close>

definition handleEngineError ::
  "int \<Rightarrow> js_error \<Rightarrow> string \<Rightarrow> ErrorHandler \<Rightarrow> error_info \<times> ErrorHandler" where
  "handleEngineError now error engine eh =
     (let (errorInfo, eh') =
            (if err_name error = ''AbortError'' \<or> includes_str (err_message error) ''timeout''
             then handleTimeoutError now error engine eh
             else if includes_str (err_message error) ''CORS'' \<or> err_name error = ''TypeError''
             then handleCORSError now error engine eh
             else if includes_str (err_message error) ''Failed to fetch''
                     \<or> includes_str (err_message error) ''Network''
             then handleNetworkError now error engine eh
             else if (case err_status error of None \<Rightarrow> False | Some s \<Rightarrow> s \<noteq> 0)
             then handleAPIError now error engine eh
             else handleGeneralError now error engine eh)
      in if shouldRetry eh' engine (info_type errorInfo)
         then (let retried = errorInfo\<lparr>info_shouldRetry := True,
                                         info_retryDelay := Some (getRetryDelay eh' engine)\<rparr>
               in (retried,
                   eh'\<lparr>errorLog := (if errorLog eh' = [] then []
                                      else butlast (errorLog eh') @ [retried])\<rparr>))
         else (errorInfo, eh'))"

section \<open>SearchManager (src/js/searchManager.js)\<close>

subsection \<open>Providers\<close>

record search_item =
  title :: string
  url :: string
  snippet :: string
  displayUrl :: string

text \<open>The object an adapter's \<^verbatim>\<open>search\<close> resolves with.\<close>

record search_result =
  res_engine :: string
  res_query :: string
  res_language :: string
  results :: "search_item list"
  totalResults :: nat
  responseTime :: int
  res_status :: string

text \<open>
  An adapter is an external collaborator: \<open>search query language now\<close> gives what the call
  started at time \<open>now\<close> settles with (\<open>Inl\<close> the thrown error) and the milliseconds it
  took; the optional methods \<^verbatim>\<open>checkRateLimit\<close> and \<^verbatim>\<open>isAvailable\<close> are \<open>None\<close> when the
  adapter does not have them and answer for the time of the call otherwise.
\<close>

record adapter =
  search :: "string \<Rightarrow> string \<Rightarrow> int \<Rightarrow> (js_error + search_result) \<times> nat"
  checkRateLimit :: "(int \<Rightarrow> bool) option"
  isAvailable :: "(int \<Rightarrow> bool) option"

subsection \<open>State\<close>

text \<open>
  What the coordinator does to its collaborators is recorded in \<open>trace\<close>, oldest event
  first: cache lookups, the calls of an adapter's methods, the retry timers and the calls
  into the display layer.
\<close>

datatype event =
    CacheGet string
  | CheckRateLimit string
  | IsAvailable string
  | Search string
  | Delay string int
  | DisplayResults string
  | DisplayError string
  | UpdateEngineHeaders

record history_entry =
  hist_query :: string
  hist_language :: string
  hist_timestamp :: int
  hist_totalTime :: int
  successfulEngines :: nat
  hist_totalResults :: nat

text \<open>
  The manager with its error handler and cache, the clock and the trace. The table
  \<open>adapters\<close> lists the registered providers in the order of \<^verbatim>\<open>Object.keys\<close>. The map
  \<^verbatim>\<open>activeSearches\<close> is left out: \<^verbatim>\<open>searchAll\<close> adds its entry under a fresh id and deletes
  it again before it returns.
\<close>

record manager =
  errorHandler :: ErrorHandler
  adapters :: "(string \<times> adapter) list"
  searchHistory :: "history_entry list"
  maxHistorySize :: nat
  manager_cache :: "search_result SearchCache"
  clock :: int
  trace :: "event list"

definition emit :: "event \<Rightarrow> manager \<Rightarrow> manager" where
  "emit ev m = m\<lparr>trace := trace m @ [ev]\<rparr>"

subsection \<open>One provider's resolution\<close>

text \<open>
  The object \<^verbatim>\<open>searchEngineWithErrorHandling\<close> returns: \<^verbatim>\<open>{engine, status, value}\<close> or
  \<^verbatim>\<open>{engine, status, reason}\<close>. It has no property \<^verbatim>\<open>results\<close> and no property
  \<^verbatim>\<open>responseTime\<close>.
\<close>

record engine_return =
  ret_engine :: string
  ret_status :: string
  ret_value :: "search_result option"
  ret_reason :: "error_info option"

definition ret_results :: "engine_return \<Rightarrow> search_item list option" where
  "ret_results r = None"

definition ret_responseTime :: "engine_return \<Rightarrow> int option" where
  "ret_responseTime r = None"

definition msg_rate_limit :: string where
  "msg_rate_limit =
     [CHR 0xE3, CHR 0x83, CHR 0xAC, CHR 0xE3, CHR 0x83, CHR 0xBC, CHR 0xE3, CHR 0x83, CHR 0x88,
      CHR 0xE5, CHR 0x88, CHR 0xB6, CHR 0xE9, CHR 0x99, CHR 0x90, CHR 0xE3, CHR 0x81, CHR 0xAB,
      CHR 0xE9, CHR 0x81, CHR 0x94, CHR 0xE3, CHR 0x81, CHR 0x97, CHR 0xE3, CHR 0x81, CHR 0xBE,
      CHR 0xE3, CHR 0x81, CHR 0x97, CHR 0xE3, CHR 0x81, CHR 0x9F]"

definition msg_not_available :: string where
  "msg_not_available =
     [CHR 0xE6, CHR 0xA4, CHR 0x9C, CHR 0xE7, CHR 0xB4, CHR 0xA2, CHR 0xE3, CHR 0x82, CHR 0xA8,
      CHR 0xE3, CHR 0x83, CHR 0xB3, CHR 0xE3, CHR 0x82, CHR 0xB8, CHR 0xE3, CHR 0x83, CHR 0xB3,
      CHR 0xE3, CHR 0x81, CHR 0x8C, CHR 0xE5, CHR 0x88, CHR 0xA9, CHR 0xE7, CHR 0x94, CHR 0xA8,
      CHR 0xE3, CHR 0x81, CHR 0xA7, CHR 0xE3, CHR 0x81, CHR 0x8D, CHR 0xE3, CHR 0x81, CHR 0xBE,
      CHR 0xE3, CHR 0x81, CHR 0x9B, CHR 0xE3, CHR 0x82, CHR 0x93]"

definition msg_unknown_engine :: string where
  "msg_unknown_engine =
     [CHR 0xE6, CHR 0x9C, CHR 0xAA, CHR 0xE7, CHR 0x9F, CHR 0xA5, CHR 0xE3, CHR 0x81, CHR 0xAE,
      CHR 0xE6, CHR 0xA4, CHR 0x9C, CHR 0xE7, CHR 0xB4, CHR 0xA2, CHR 0xE3, CHR 0x82, CHR 0xA8,
      CHR 0xE3, CHR 0x83, CHR 0xB3, CHR 0xE3, CHR 0x82, CHR 0xB8, CHR 0xE3, CHR 0x83, CHR 0xB3,
      CHR 0x3A, CHR 0x20]"

definition msg_empty_query :: string where
  "msg_empty_query =
     [CHR 0xE6, CHR 0xA4, CHR 0x9C, CHR 0xE7, CHR 0xB4, CHR 0xA2, CHR 0xE3, CHR 0x82, CHR 0xAF,
      CHR 0xE3, CHR 0x82, CHR 0xA8, CHR 0xE3, CHR 0x83, CHR 0xAA, CHR 0xE3, CHR 0x81, CHR 0x8C,
      CHR 0xE7, CHR 0xA9, CHR 0xBA, CHR 0xE3, CHR 0x81, CHR 0xA7, CHR 0xE3, CHR 0x81, CHR 0x99]"

text \<open>
  The \<^verbatim>\<open>try\<close> block of \<^verbatim>\<open>searchEngineWithErrorHandling\<close>, one step after the other; \<open>Inl\<close> is
  the error the block throws into the \<^verbatim>\<open>catch\<close>.
\<close>

definition callSearch ::
  "string \<Rightarrow> adapter \<Rightarrow> string \<Rightarrow> string \<Rightarrow> string \<Rightarrow> manager
   \<Rightarrow> (js_error + engine_return) \<times> manager" where
  "callSearch engine adapter query language cacheKey m =
     (let (outcome, elapsed) = search adapter query language (clock m);
          m1 = (emit (Search engine) m)\<lparr>clock := clock m + int elapsed\<rparr>
      in case outcome of
           Inl error \<Rightarrow> (Inl error, m1)
         | Inr result \<Rightarrow>
             (let m2 = m1\<lparr>manager_cache :=
                           set_cache (clock m1) cacheKey result None (manager_cache m1)\<rparr>;
                  m3 = m2\<lparr>errorHandler := resetRetryAttempts engine (errorHandler m2)\<rparr>;
                  m4 = emit (DisplayResults engine) m3
              in (Inr \<lparr>ret_engine = engine, ret_status = ''fulfilled'',
                       ret_value = Some result, ret_reason = None\<rparr>, m4)))"

definition trySearch ::
  "string \<Rightarrow> adapter \<Rightarrow> string \<Rightarrow> string \<Rightarrow> manager \<Rightarrow> (js_error + engine_return) \<times> manager" where
  "trySearch engine adapter query language m =
     (let cacheKey = generateCacheKey engine query language;
          (cachedResult, c) = get_cache (clock m) cacheKey (manager_cache m);
          m1 = emit (CacheGet cacheKey) (m\<lparr>manager_cache := c\<rparr>)
      in case cachedResult of
           Some cached \<Rightarrow>
             (Inr \<lparr>ret_engine = engine, ret_status = ''fulfilled'',
                   ret_value = Some cached, ret_reason = None\<rparr>,
              emit (DisplayResults engine) m1)
         | None \<Rightarrow>
             (let (rateOk, m2) =
                    (case checkRateLimit adapter of
                       None \<Rightarrow> (True, m1)
                     | Some limit \<Rightarrow> (limit (clock m1), emit (CheckRateLimit engine) m1))
              in if \<not> rateOk then (Inl (Error msg_rate_limit), m2)
                 else (let (available, m3) =
                             (case isAvailable adapter of
                                None \<Rightarrow> (True, m2)
                              | Some avail \<Rightarrow> (avail (clock m2), emit (IsAvailable engine) m2))
                       in if \<not> available then (Inl (Error msg_not_available), m3)
                          else callSearch engine adapter query language cacheKey m3)))"

text \<open>
  \<^verbatim>\<open>searchEngineWithErrorHandling\<close> and \<^verbatim>\<open>retrySearch\<close> call each other. The result is what
  the returned promise settles with: \<open>Inr\<close> the object it is fulfilled with, \<open>Inl\<close> the error
  it is rejected with (an engine that is not registered). The timer of \<^verbatim>\<open>retrySearch\<close>
  advances the clock by the delay. The parameter \<^verbatim>\<open>searchId\<close> is not read by the source and
  is left out.
\<close>

function searchEngineWithErrorHandling ::
    "string \<Rightarrow> string \<Rightarrow> string \<Rightarrow> manager \<Rightarrow> (js_error + engine_return) \<times> manager"
  and retrySearch ::
    "string \<Rightarrow> string \<Rightarrow> string \<Rightarrow> int \<Rightarrow> manager \<Rightarrow> (js_error + engine_return) \<times> manager"
  where
  "searchEngineWithErrorHandling engine query language m =
     (case map_of (adapters m) engine of
        None \<Rightarrow> (Inl (Error (msg_unknown_engine @ engine)), m)
      | Some adapter \<Rightarrow>
          (case trySearch engine adapter query language m of
             (Inr returned, m1) \<Rightarrow> (Inr returned, m1)
           | (Inl error, m1) \<Rightarrow>
               (case handleEngineError (clock m1) error engine (errorHandler m1) of
                  (errorInfo, eh) \<Rightarrow>
                    if info_shouldRetry errorInfo
                    then retrySearch engine query language
                           (case info_retryDelay errorInfo of None \<Rightarrow> 0 | Some d \<Rightarrow> d)
                           (emit (DisplayError engine) (m1\<lparr>errorHandler := eh\<rparr>))
                    else (Inr \<lparr>ret_engine = engine, ret_status = ''rejected'',
                               ret_value = None, ret_reason = Some errorInfo\<rparr>,
                          emit (DisplayError engine) (m1\<lparr>errorHandler := eh\<rparr>)))))"
| "retrySearch engine query language delay m =
     searchEngineWithErrorHandling engine query language
       ((emit (Delay engine delay)
           (m\<lparr>errorHandler := recordRetryAttempt engine (errorHandler m)\<rparr>))
        \<lparr>clock := clock m + max 0 delay\<rparr>)"
  by pat_completeness auto

subsection \<open>The aggregation call\<close>

text \<open>
  An element of the array \<^verbatim>\<open>Promise.allSettled\<close> resolves with: \<^verbatim>\<open>{status: 'fulfilled', value}\<close>
  for a promise fulfilled with \<open>value\<close>, \<^verbatim>\<open>{status: 'rejected', reason}\<close> for a rejected one.
  Such an element has no property \<^verbatim>\<open>engine\<close> and no property \<^verbatim>\<open>error\<close>.
\<close>

datatype settled = Settled_fulfilled engine_return | Settled_rejected js_error

fun settled_status :: "settled \<Rightarrow> string" where
  "settled_status (Settled_fulfilled v) = ''fulfilled''"
| "settled_status (Settled_rejected e) = ''rejected''"

fun settled_value :: "settled \<Rightarrow> engine_return option" where
  "settled_value (Settled_fulfilled v) = Some v"
| "settled_value (Settled_rejected e) = None"

fun settled_reason :: "settled \<Rightarrow> js_error option" where
  "settled_reason (Settled_fulfilled v) = None"
| "settled_reason (Settled_rejected e) = Some e"

record engine_slot =
  slot_status :: string
  slot_data :: "engine_return option"
  slot_error :: "js_error option"
  resultCount :: nat
  slot_responseTime :: int

record summary =
  total :: nat
  successful :: nat
  failed :: nat
  summary_totalResults :: nat

record processed_results =
  pr_query :: string
  pr_language :: string
  totalTime :: int
  pr_timestamp :: int
  engines :: "(string \<times> engine_slot) list"
  summary :: summary

text \<open>
  The body of the \<^verbatim>\<open>forEach\<close> in \<^verbatim>\<open>processSearchResults\<close>. \<^verbatim>\<open>result.engine\<close> is undefined, so
  the key is \<^verbatim>\<open>result.value.engine\<close>, or the property name \<^verbatim>\<open>undefined\<close> when there is no
  value; \<^verbatim>\<open>result.value\<close> is an object and hence truthy whenever it is there.
\<close>

definition processResult :: "settled \<Rightarrow> processed_results \<Rightarrow> processed_results" where
  "processResult result pr =
     (let engine = (case settled_value result of Some v \<Rightarrow> ret_engine v | None \<Rightarrow> ''undefined'');
          sm = summary pr
      in case (if settled_status result = ''fulfilled'' then settled_value result else None) of
           Some v \<Rightarrow>
             (let count = (case ret_results v of Some rs \<Rightarrow> length rs | None \<Rightarrow> 0);
                  time = (case ret_responseTime v of Some t \<Rightarrow> t | None \<Rightarrow> 0)
              in pr\<lparr>engines := AList.update engine
                                   \<lparr>slot_status = ''success'', slot_data = Some v,
                                    slot_error = None, resultCount = count,
                                    slot_responseTime = time\<rparr> (engines pr),
                    summary := sm\<lparr>successful := successful sm + 1,
                                   summary_totalResults := summary_totalResults sm + count\<rparr>\<rparr>)
         | None \<Rightarrow>
             pr\<lparr>engines := AList.update engine
                               \<lparr>slot_status = ''error'', slot_data = None,
                                slot_error = settled_reason result, resultCount = 0,
                                slot_responseTime = 0\<rparr> (engines pr),
                summary := sm\<lparr>failed := failed sm + 1\<rparr>\<rparr>)"

definition processSearchResults ::
  "settled list \<Rightarrow> string \<Rightarrow> string \<Rightarrow> int \<Rightarrow> int \<Rightarrow> processed_results" where
  "processSearchResults rs query language time now =
     fold processResult rs
       \<lparr>pr_query = query, pr_language = language, totalTime = time, pr_timestamp = now,
        engines = [],
        summary = \<lparr>total = length rs, successful = 0, failed = 0, summary_totalResults = 0\<rparr>\<rparr>"

definition addToHistory ::
  "string \<Rightarrow> string \<Rightarrow> processed_results \<Rightarrow> int \<Rightarrow> manager \<Rightarrow> manager" where
  "addToHistory query language pr time m =
     (let historyEntry =
            \<lparr>hist_query = query, hist_language = language, hist_timestamp = clock m,
             hist_totalTime = time,
             successfulEngines =
               length (filter (\<lambda>(engine, slot). slot_status slot = ''success'') (engines pr)),
             hist_totalResults = summary_totalResults (summary pr)\<rparr>;
          unshifted = historyEntry # searchHistory m
      in m\<lparr>searchHistory := (if length unshifted > maxHistorySize m
                              then take (maxHistorySize m) unshifted else unshifted)\<rparr>)"

text \<open>
  The fan-out and \<^verbatim>\<open>Promise.allSettled\<close>. JavaScript interleaves the providers' chains at
  their \<^verbatim>\<open>await\<close> points; the model runs one chain to its end before the next one starts,
  in the order of \<^verbatim>\<open>Object.keys(this.adapters)\<close>, on the shared cache, error handler and
  clock.
\<close>

fun allSettled :: "string list \<Rightarrow> string \<Rightarrow> string \<Rightarrow> manager \<Rightarrow> settled list \<times> manager" where
  "allSettled [] query language m = ([], m)"
| "allSettled (engine # rest) query language m =
     (case searchEngineWithErrorHandling engine query language m of
        (outcome, m1) \<Rightarrow>
          (case allSettled rest query language m1 of
             (rs, m2) \<Rightarrow>
               ((case outcome of Inr v \<Rightarrow> Settled_fulfilled v | Inl e \<Rightarrow> Settled_rejected e) # rs,
                m2)))"

text \<open>
  \<^verbatim>\<open>searchAll\<close>: \<open>Inl\<close> is the error the call throws. \<^verbatim>\<open>!query\<close> holds for the empty string.
\<close>

definition searchAll ::
  "string \<Rightarrow> string \<Rightarrow> manager \<Rightarrow> (js_error + processed_results) \<times> manager" where
  "searchAll query language m =
     (if query = [] \<or> trim query = [] then (Inl (Error msg_empty_query), m)
      else (let startTime = clock m;
                m1 = emit UpdateEngineHeaders m;
                (rs, m2) = allSettled (map fst (adapters m1)) query language m1;
                time = clock m2 - startTime;
                processedResults = processSearchResults rs query language time (clock m2);
                m3 = addToHistory query language processedResults time m2
            in (Inr processedResults, m3)))"

text \<open>
  The constructor. The source registers its six adapters (google, bing, yahoo, duckduckgo,
  youtube, baidu); the model takes the table of registered providers, the size function of
  the cache and the time as parameters.
\<close>

definition new_SearchManager ::
  "(string \<times> adapter) list \<Rightarrow> (search_result \<Rightarrow> nat) \<Rightarrow> int \<Rightarrow> manager" where
  "new_SearchManager registered csize now =
     \<lparr>errorHandler = new_ErrorHandler, adapters = registered, searchHistory = [],
      maxHistorySize = 50, manager_cache = new_SearchCache csize, clock = now, trace = []\<rparr>"

subsection \<open>Reading the trace\<close>

definition searchCalls :: "string \<Rightarrow> event list \<Rightarrow> nat" where
  "searchCalls engine evs = length (filter (\<lambda>ev. ev = Search engine) evs)"

fun delaysOf :: "string \<Rightarrow> event list \<Rightarrow> int list" where
  "delaysOf engine [] = []"
| "delaysOf engine (Delay e d # evs) = (if e = engine then d # delaysOf engine evs else delaysOf engine evs)"
| "delaysOf engine (ev # evs) = delaysOf engine evs"

text \<open>The \<^verbatim>\<open>type\<close> of the error record a provider's resolution ends with, if it has one.\<close>

definition classification :: "js_error + engine_return \<Rightarrow> string option" where
  "classification r =
     (case r of Inr ret \<Rightarrow> map_option info_type (ret_reason ret) | Inl e \<Rightarrow> None)"

text \<open>
  An adapter's checks block the call when \<^verbatim>\<open>checkRateLimit\<close> or \<^verbatim>\<open>isAvailable\<close> is there and
  returns false.
\<close>

definition blocked :: "adapter \<Rightarrow> int \<Rightarrow> bool" where
  "blocked adapter now =
     ((case checkRateLimit adapter of Some limit \<Rightarrow> \<not> limit now | None \<Rightarrow> False)
      \<or> (case isAvailable adapter of Some avail \<Rightarrow> \<not> avail now | None \<Rightarrow> False))"

section \<open>Example configurations\<close>

text \<open>A cache whose capacity was set to 2 with \<^verbatim>\<open>updateSettings({maxSize: 2})\<close>.\<close>

definition capacity2_cache :: "unit SearchCache" where
  "capacity2_cache =
     updateSettings \<lparr>settings_maxSize = Some 2, settings_defaultTTL = None,
                     settings_cleanupInterval = None\<rparr> (new_SearchCache (\<lambda>d. 0))"

text \<open>A snapshot of 101 entries with the keys \<open>k\<close>, \<open>kk\<close>, \<open>kkk\<close>, ..., all valid until time 1000.\<close>

definition snapshot101 :: "unit export_snapshot" where
  "snapshot101 =
     \<lparr>export_timestamp = 0,
      entries = map (\<lambda>i. \<lparr>export_key = replicate (Suc i) CHR ''k'', export_data = (),
                          export_createdAt = 0, export_expiresAt = 1000\<rparr>) [0..<101]\<rparr>"

text \<open>A cache holding one entry, stored at time 0 with a time to live of 10 ms.\<close>

definition short_lived_cache :: "nat SearchCache" where
  "short_lived_cache = set_cache 0 ''k'' 7 (Some 10) (new_SearchCache (\<lambda>d. 0))"

text \<open>The same cache after two reads of the entry.\<close>

definition served_cache :: "nat SearchCache" where
  "served_cache = snd (get_cache 3 ''k'' (snd (get_cache 2 ''k'' short_lived_cache)))"

text \<open>
  A cache of three entries stored at time 0, the first with a time to live of 10 ms, the
  others with the default of five minutes.
\<close>

definition mixed_cache :: "nat SearchCache" where
  "mixed_cache =
     set_cache 0 ''k3'' 3 None
       (set_cache 0 ''k2'' 2 None (set_cache 0 ''k1'' 1 (Some 10) (new_SearchCache (\<lambda>d. 0))))"

text \<open>
  Providers: one whose \<^verbatim>\<open>search\<close> throws a network error on every call, one that answers, one
  whose \<^verbatim>\<open>checkRateLimit\<close> returns false, one whose \<^verbatim>\<open>isAvailable\<close> returns false.
\<close>

definition network_failure :: js_error where
  "network_failure = \<lparr>err_name = ''Error'', err_message = ''Network unreachable'', err_status = None\<rparr>"

definition cats_result :: "string \<Rightarrow> search_result" where
  "cats_result engine =
     \<lparr>res_engine = engine, res_query = ''cats'', res_language = ''en'',
      results = [\<lparr>title = ''Cat'', url = ''https://example.org/cat'', snippet = ''A cat'',
                  displayUrl = ''example.org''\<rparr>],
      totalResults = 1, responseTime = 120, res_status = ''success''\<rparr>"

definition failing_adapter :: adapter where
  "failing_adapter =
     \<lparr>search = (\<lambda>query language now. (Inl network_failure, 50)),
      checkRateLimit = None, isAvailable = None\<rparr>"

definition working_adapter :: "string \<Rightarrow> adapter" where
  "working_adapter engine =
     \<lparr>search = (\<lambda>query language now. (Inr (cats_result engine), 120)),
      checkRateLimit = Some (\<lambda>now. True), isAvailable = Some (\<lambda>now. True)\<rparr>"

definition limited_adapter :: "string \<Rightarrow> adapter" where
  "limited_adapter engine =
     \<lparr>search = (\<lambda>query language now. (Inr (cats_result engine), 120)),
      checkRateLimit = Some (\<lambda>now. False), isAvailable = Some (\<lambda>now. True)\<rparr>"

definition offline_adapter :: "string \<Rightarrow> adapter" where
  "offline_adapter engine =
     \<lparr>search = (\<lambda>query language now. (Inr (cats_result engine), 120)),
      checkRateLimit = Some (\<lambda>now. True), isAvailable = Some (\<lambda>now. False)\<rparr>"

definition partial_failure_manager :: manager where
  "partial_failure_manager =
     new_SearchManager [(''providerA'', failing_adapter), (''providerB'', working_adapter ''providerB'')] (\<lambda>r. 0) 0"

definition failing_manager :: manager where
  "failing_manager = new_SearchManager [(''providerA'', failing_adapter)] (\<lambda>r. 0) 0"

definition limited_manager :: manager where
  "limited_manager = new_SearchManager [(''providerA'', limited_adapter ''providerA'')] (\<lambda>r. 0) 0"

definition offline_manager :: manager where
  "offline_manager = new_SearchManager [(''providerA'', offline_adapter ''providerA'')] (\<lambda>r. 0) 0"

text \<open>A manager whose cache was seeded at time 0 for (providerA, en, cats).\<close>

definition seeded_manager :: manager where
  "seeded_manager =
     (let m = new_SearchManager [(''providerA'', failing_adapter)] (\<lambda>r. 0) 0
      in m\<lparr>manager_cache :=
             set_cache 0 (generateCacheKey ''providerA'' ''cats'' ''en'')
               (cats_result ''providerA'') None (manager_cache m)\<rparr>)"

text \<open>
  The manager with the failing provider after one aggregation call, and after a second one.
\<close>

definition after_first_call :: manager where
  "after_first_call = snd (searchAll ''cats'' ''en'' failing_manager)"

definition after_second_call :: manager where
  "after_second_call = snd (searchAll ''cats'' ''en'' after_first_call)"

text \<open>A manager whose provider works and whose retry counter for it stands at 2.\<close>

definition recovering_manager :: manager where
  "recovering_manager =
     (let m = new_SearchManager [(''providerB'', working_adapter ''providerB'')] (\<lambda>r. 0) 0
      in m\<lparr>errorHandler :=
             recordRetryAttempt ''providerB'' (recordRetryAttempt ''providerB'' (errorHandler m))\<rparr>)"

section \<open>Doubles\<close>

text \<open>
  \<open>floor_log2\<close> finds the binade of a positive rational, and rounding moves a number by at
  most half a unit in the last place.
\<close>

declare bit_length.simps [simp del]

text \<open>
  Some percentages as JavaScript computes them: \<^verbatim>\<open>1 / 3 * 100\<close> is 33.33333333333333,
  \<^verbatim>\<open>3 / 5 * 100\<close> is 60, \<^verbatim>\<open>1 / 5 * 100\<close> is 20, \<^verbatim>\<open>5 / 6 * 100\<close> is 83.33333333333334,
  \<^verbatim>\<open>1 / 27 * 100\<close> is 3.7037037037037033 and \<^verbatim>\<open>7 / 23 * 100\<close> is 30.434782608695656.
\<close>

lemma double_examples:
  "double_mul (double_div 1 3) 100 = 2345624805922133 / 70368744177664"
  "double_mul (double_div 3 5) 100 = 60"
  "double_mul (double_div 1 5) 100 = 20"
  "double_mul (double_div 5 6) 100 = 2932031007402667 / 35184372088832"
  "double_mul (double_div 1 27) 100 = 4169999654972681 / 1125899906842624"
  "double_mul (double_div 7 23) 100 = 1070828715747061 / 35184372088832"
  by code_simp+

lemma bit_length_bounds:
  "n > 0 \<Longrightarrow> 2 ^ (bit_length n - 1) \<le> n \<and> n < 2 ^ bit_length n"
proof (induction n rule: bit_length.induct)
  case (1 n)
  show ?case
  proof (cases "n div 2 = 0")
    case True
    with 1(2) have "n = 1" by (simp add: div_eq_0_iff)
    then show ?thesis by (simp add: bit_length.simps)
  next
    case False
    with 1 have ih: "2 ^ (bit_length (n div 2) - 1) \<le> n div 2" "n div 2 < 2 ^ bit_length (n div 2)"
      by simp_all
    have bl: "bit_length n = Suc (bit_length (n div 2))" using 1(2) by (subst bit_length.simps) simp
    have pos: "bit_length (n div 2) > 0" using False by (subst bit_length.simps) simp
    from ih(1) have "2 * 2 ^ (bit_length (n div 2) - 1) \<le> n" by linarith
    moreover from pos have "(2::nat) * 2 ^ (bit_length (n div 2) - 1) = 2 ^ bit_length (n div 2)"
      by (cases "bit_length (n div 2)") simp_all
    moreover from ih(2) have "n < 2 * 2 ^ bit_length (n div 2)" by linarith
    ultimately show ?thesis by (simp add: bl)
  qed
qed

lemma floor_log2_bounds:
  assumes "a > 0"
  shows "pow2 (floor_log2 a) \<le> a \<and> a < pow2 (floor_log2 a + 1)"
proof (cases "a \<ge> 1")
  case True
  let ?n = "nat \<lfloor>a\<rfloor>"
  from True have n: "?n > 0" by simp
  from True have fl: "floor_log2 a = int (bit_length ?n) - 1" by (simp add: floor_log2_def)
  from bit_length_bounds[OF n] have b: "2 ^ (bit_length ?n - 1) \<le> ?n" "?n < 2 ^ bit_length ?n"
    by simp_all
  have pos: "bit_length ?n > 0" using n by (subst bit_length.simps) simp
  have "(2::rat) ^ (bit_length ?n - 1) = of_nat (2 ^ (bit_length ?n - 1))" by simp
  also have "\<dots> \<le> of_nat ?n" using b(1) by (simp only: of_nat_le_iff)
  also have "\<dots> \<le> a" using True by simp
  finally have lo: "(2::rat) ^ (bit_length ?n - 1) \<le> a" .
  from b(2) have "int ?n + 1 \<le> 2 ^ bit_length ?n" by (metis Suc_leI of_nat_Suc of_nat_le_iff of_nat_numeral of_nat_power add.commute plus_1_eq_Suc)
  then have "\<lfloor>a\<rfloor> + 1 \<le> 2 ^ bit_length ?n" using True by simp
  then have "a < of_int (2 ^ bit_length ?n)" by (metis floor_less_iff add.commute zless_add1_eq le_less less_le_trans of_int_less_iff floor_correct)
  then have hi: "a < (2::rat) ^ bit_length ?n" by simp
  from lo hi pos show ?thesis by (simp add: fl pow2_def nat_diff_distrib)
next
  case False
  let ?t = "1 / a"
  let ?n = "nat (\<lceil>?t\<rceil> - 1)"
  let ?k = "bit_length ?n"
  from False assms have t: "?t > 1" by simp
  then have c: "\<lceil>?t\<rceil> \<ge> 2" by linarith
  then have n: "?n > 0" by linarith
  have fl: "floor_log2 a = - int ?k" using False by (simp add: floor_log2_def)
  from bit_length_bounds[OF n] have b: "2 ^ (?k - 1) \<le> ?n" "?n < 2 ^ ?k" by simp_all
  have pos: "?k > 0" using n by (subst bit_length.simps) simp
  from c have "0 \<le> \<lceil>?t\<rceil> - 1" by linarith
  then have nc: "int ?n = \<lceil>?t\<rceil> - 1" by (rule nat_0_le)
  from b(2) have "int ?n < int (2 ^ ?k)" by (simp only: of_nat_less_iff)
  then have "int ?n < 2 ^ ?k" by simp
  with nc have "\<lceil>?t\<rceil> \<le> 2 ^ ?k" by linarith
  then have "?t \<le> of_int (2 ^ ?k)" by (simp only: ceiling_le_iff)
  then have thi: "?t \<le> 2 ^ ?k" by simp
  from b(1) have "int (2 ^ (?k - 1)) \<le> int ?n" by (simp only: of_nat_le_iff)
  with nc have "2 ^ (?k - 1) \<le> \<lceil>?t\<rceil> - 1" by simp
  then have "of_int (2 ^ (?k - 1)) < ?t" by linarith
  then have tlo: "2 ^ (?k - 1) < ?t" by simp
  from thi assms have lo: "1 / 2 ^ ?k \<le> a"
    by (simp add: field_simps)
  from tlo assms have hi: "a < 1 / 2 ^ (?k - 1)"
    by (simp add: field_simps)
  show ?thesis
  proof (cases "?k = 1")
    case True
    with lo hi show ?thesis by (simp add: fl pow2_def)
  next
    case False
    with pos have "?k - 1 > 0" by simp
    moreover have "nat (int ?k - 1) = ?k - 1" by (simp add: nat_diff_distrib)
    ultimately show ?thesis using lo hi pos by (simp add: fl pow2_def)
  qed
qed


lemma round_half_even_error: "\<bar>of_int (round_half_even m) - m\<bar> \<le> 1 / 2"
proof -
  have "of_int \<lfloor>m\<rfloor> \<le> m" "m < of_int \<lfloor>m\<rfloor> + 1" by linarith+
  then show ?thesis by (auto simp: round_half_even_def Let_def)
qed

lemma pow2_pos: "pow2 k > 0"
  by (simp add: pow2_def)

lemma round_double_error:
  "\<bar>round_double x - x\<bar> \<le> pow2 (max (floor_log2 \<bar>x\<bar>) (- 1022) - 52) / 2"
proof (cases "x = 0")
  case True
  then show ?thesis using pow2_pos[of "max (floor_log2 \<bar>x\<bar>) (- 1022) - 52"]
    by (simp add: round_double_def)
next
  case False
  let ?u = "pow2 (max (floor_log2 \<bar>x\<bar>) (- 1022) - 52)"
  let ?r = "round_half_even (\<bar>x\<bar> / ?u)"
  have u: "?u > 0" by (rule pow2_pos)
  have r: "round_double x = sgn x * of_int ?r * ?u" using False by (simp add: round_double_def Let_def)
  have sx: "x = sgn x * \<bar>x\<bar>" by (simp add: sgn_mult_abs)
  have "round_double x - x = sgn x * (of_int ?r * ?u) - sgn x * \<bar>x\<bar>"
    using sx by (simp add: r mult.assoc)
  then have "\<bar>round_double x - x\<bar> = \<bar>sgn x * (of_int ?r * ?u - \<bar>x\<bar>)\<bar>"
    by (simp only: right_diff_distrib)
  also have "\<dots> = \<bar>of_int ?r * ?u - \<bar>x\<bar>\<bar>" using False by (simp add: abs_mult abs_sgn_eq)
  also have "\<dots> = \<bar>of_int ?r - \<bar>x\<bar> / ?u\<bar> * ?u"
  proof -
    have "of_int ?r * ?u - \<bar>x\<bar> = (of_int ?r - \<bar>x\<bar> / ?u) * ?u" using u by (simp add: field_simps)
    then show ?thesis using u by (simp only: abs_mult) simp
  qed
  also have "\<dots> \<le> (1 / 2) * ?u"
    using u round_half_even_error[of "\<bar>x\<bar> / ?u"] by (intro mult_right_mono) simp_all
  finally show ?thesis by simp
qed

text \<open>Rounding leaves the doubles 0, 1 and 100 as they are.\<close>

lemma round_double_0 [simp]: "round_double 0 = 0"
  by (simp add: round_double_def)

lemma round_double_1: "round_double 1 = 1"
  by code_simp

lemma round_double_100: "round_double 100 = 100"
  by code_simp

section \<open>The cache: size, eviction, expiry, statistics\<close>

lemma length_update_fresh:
  "k \<notin> fst ` set al \<Longrightarrow> length (AList.update k v al) = Suc (length al)"
  by (induction al) auto

text \<open>
  \<^verbatim>\<open>import\<close> adds one entry per valid snapshot entry with a new key, whatever \<open>maxSize\<close> is.
\<close>

lemma import_loop_fresh:
  "distinct (map export_key es) \<Longrightarrow> \<forall>e \<in> set es. now \<le> export_expiresAt e \<Longrightarrow>
   \<forall>e \<in> set es. export_key e \<notin> fst ` set (cache c) \<Longrightarrow>
   import_loop now es (n, c) = (n', c') \<Longrightarrow>
   n' = n + length es \<and> length (cache c') = length (cache c) + length es \<and> maxSize c' = maxSize c"
proof (induction es arbitrary: n c)
  case Nil
  then show ?case by simp
next
  case (Cons e es)
  let ?entry = "\<lparr>data = export_data e, createdAt = export_createdAt e, lastAccessed = now,
                  expiresAt = export_expiresAt e, entry_size = calculateSize c (export_data e)\<rparr>"
  let ?c = "c\<lparr>cache := AList.update (export_key e) ?entry (cache c)\<rparr>"
  from Cons.prems have step: "import_loop now es (n + 1, ?c) = (n', c')"
    by (simp add: Let_def)
  have fresh: "\<forall>x \<in> set es. export_key x \<notin> fst ` set (cache ?c)"
  proof
    fix x assume x: "x \<in> set es"
    with Cons.prems(1) have "export_key x \<noteq> export_key e" by (auto simp: image_iff)
    moreover from x Cons.prems(3) have "export_key x \<notin> fst ` set (cache c)" by simp
    ultimately show "export_key x \<notin> fst ` set (cache ?c)" by (simp add: dom_update)
  qed
  have len: "length (cache ?c) = Suc (length (cache c))"
    using Cons.prems(3) by (simp add: length_update_fresh)
  from Cons.IH[OF _ _ fresh step] Cons.prems(1,2) len show ?case by simp
qed

text \<open>
  C3. The claim: after any sequence of cache operations from an empty cache, the number of
  entries is at most \<open>maxSize\<close>. The code: importing a snapshot of 101 valid entries into a
  new cache (capacity 100) stores all 101 of them; \<^verbatim>\<open>import\<close> writes to the map without the
  capacity check that \<^verbatim>\<open>set\<close> makes.
\<close>

theorem import_exceeds_maxSize:
  "map_sum id (\<lambda>(n, c). (n, length (cache c), maxSize c))
     (import_cache 5 (Some snapshot101) (new_SearchCache (\<lambda>d. 0))) = Inr (101, 101, 100)"
proof -
  obtain n' c' where r: "import_loop 5 (entries snapshot101) (0, new_SearchCache (\<lambda>d. 0)) = (n', c')"
    by (cases "import_loop 5 (entries snapshot101) (0, new_SearchCache (\<lambda>d::unit. 0))")
  have d: "distinct (map export_key (entries snapshot101))"
    by (simp add: snapshot101_def distinct_map o_def inj_on_def)
  have v: "\<forall>e \<in> set (entries snapshot101). 5 \<le> export_expiresAt e"
    by (auto simp: snapshot101_def)
  have f: "\<forall>e \<in> set (entries snapshot101).
             export_key e \<notin> fst ` set (cache (new_SearchCache (\<lambda>d::unit. 0)))"
    by (simp add: new_SearchCache_def)
  have l: "length (entries snapshot101) = 101" by (simp add: snapshot101_def)
  from import_loop_fresh[OF d v f r] l show ?thesis
    by (simp add: import_cache_def r) (simp add: new_SearchCache_def)
qed

text \<open>
  When the insertions happen at different times, the entry accessed longest ago is evicted:
  k1, k2, k3 inserted at times 5, 6, 7 into a cache of capacity 2 leave k2 and k3.
\<close>

lemma evictLRU_with_distinct_times:
  "map fst (cache (set_cache 7 ''k3'' () None
                     (set_cache 6 ''k2'' () None (set_cache 5 ''k1'' () None capacity2_cache))))
     = [''k2'', ''k3'']"
  by (simp add: capacity2_cache_def set_cache_def updateSettings_def new_SearchCache_def
      evictLRU_def)

text \<open>
  C4. The claim: a cache of capacity N holding N entries evicts exactly the least recently
  used entry when a further key is inserted; with capacity 2, inserting k1, k2, k3 evicts k1.
  The code: \<^verbatim>\<open>evictLRU\<close> starts its search from \<^verbatim>\<open>oldestTime = Date.now()\<close> and compares with
  \<open><\<close>, so entries last accessed in the current millisecond are never chosen. Three
  insertions within one millisecond leave k1, k2 and k3 in a cache of capacity 2.
\<close>

theorem evictLRU_keeps_entries_of_same_millisecond:
  "(let c = set_cache 5 ''k3'' () None
              (set_cache 5 ''k2'' () None (set_cache 5 ''k1'' () None capacity2_cache))
    in (map fst (cache c), maxSize c)) = ([''k1'', ''k2'', ''k3''], 2)"
  by (simp add: capacity2_cache_def set_cache_def updateSettings_def new_SearchCache_def
      evictLRU_def)

text \<open>
  C7. \<^verbatim>\<open>set(k, v)\<close> followed by \<^verbatim>\<open>get(k)\<close> returns \<open>v\<close>, as long as the read is not later than
  the entry's \<open>expiresAt\<close> (the time of the write plus the time to live); and for an entry
  whose \<open>expiresAt\<close> has passed, \<^verbatim>\<open>get(k)\<close> returns a miss and \<^verbatim>\<open>has(k)\<close> returns false, and both
  remove the entry.
\<close>

theorem set_get_roundtrip_and_expiry:
  "(now' \<le> now + (case ttl of None \<Rightarrow> defaultTTL c | Some t \<Rightarrow> if t = 0 then defaultTTL c else t)
      \<longrightarrow> fst (get_cache now' k (set_cache now k v ttl c)) = Some v)
   \<and> (map_of (cache c) k = Some e \<and> expiresAt e < now
      \<longrightarrow> fst (get_cache now k c) = None \<and> k \<notin> fst ` set (cache (snd (get_cache now k c)))
        \<and> fst (has_cache now k c) = False \<and> k \<notin> fst ` set (cache (snd (has_cache now k c))))"
  by (auto simp: get_cache_def has_cache_def set_cache_def Let_def update_conv' delete_notin_dom)

theorem set_get_roundtrip_and_expiry_witness:
  "fst (get_cache 12 ''k'' (set_cache 11 ''k'' 9 None short_lived_cache)) = Some 9
   \<and> fst (get_cache 11 ''k'' short_lived_cache) = None
   \<and> ''k'' \<notin> fst ` set (cache (snd (get_cache 11 ''k'' short_lived_cache)))
   \<and> fst (has_cache 11 ''k'' short_lived_cache) = False
   \<and> ''k'' \<notin> fst ` set (cache (snd (has_cache 11 ''k'' short_lived_cache)))"
  using set_get_roundtrip_and_expiry [where now' = 12 and now = 11 and ttl = None
      and c = short_lived_cache and k = "''k''" and v = 9
      and e = "\<lparr>data = 7, createdAt = 0, lastAccessed = 0, expiresAt = 10, entry_size = 0\<rparr>"]
  by (simp add: short_lived_cache_def set_cache_def new_SearchCache_def)

text \<open>A read that hits changes \<open>lastAccessed\<close> only: the entries and their expiry stay.\<close>

lemma update_hit_expiry:
  "map_of al k = Some e \<Longrightarrow>
     map (\<lambda>(key, entry). expiresAt entry) (AList.update k (e\<lparr>lastAccessed := t\<rparr>) al)
       = map (\<lambda>(key, entry). expiresAt entry) al"
  by (induction al) (auto split: if_splits)

lemma length_update_present:
  "map_of al k = Some e \<Longrightarrow> length (AList.update k v al) = length al"
  by (induction al) (auto split: if_splits)

lemma count_valid_map:
  "length (filter (\<lambda>(key, entry). now \<le> expiresAt entry) al)
     = length (filter (\<lambda>x. now \<le> x) (map (\<lambda>(key, entry). expiresAt entry) al))"
  by (induction al) auto

text \<open>
  C10. The \<open>hitRate\<close> of \<^verbatim>\<open>getStats\<close> is not a ratio of hits to lookups. It is the number of
  stored entries that have not expired, divided by the number of stored entries, times 100,
  computed in doubles, and 0 for an empty cache; \<open>validEntries\<close>, \<open>expiredEntries\<close> and
  \<open>totalEntries\<close> are these counts. So it is 0 when every stored entry has expired, whatever
  was read before, 100 when every stored entry is valid, and a read that hits leaves it as
  it is.
\<close>

theorem hitRate_is_share_of_valid_entries:
  "hitRate (getStats now c)
     = (if cache c = [] then 0
        else double_mul
               (double_div (of_nat (length (filter (\<lambda>(key, entry). now \<le> expiresAt entry) (cache c))))
                           (of_nat (length (cache c)))) 100)
   \<and> validEntries (getStats now c)
       = length (filter (\<lambda>(key, entry). now \<le> expiresAt entry) (cache c))
   \<and> expiredEntries (getStats now c)
       = length (filter (\<lambda>(key, entry). expiresAt entry < now) (cache c))
   \<and> totalEntries (getStats now c) = length (cache c)
   \<and> (cache c \<noteq> [] \<and> (\<forall>entry \<in> snd ` set (cache c). expiresAt entry < now)
        \<longrightarrow> hitRate (getStats now c) = 0)
   \<and> (cache c \<noteq> [] \<and> (\<forall>entry \<in> snd ` set (cache c). now \<le> expiresAt entry)
        \<longrightarrow> hitRate (getStats now c) = 100)
   \<and> (fst (get_cache now' k c) \<noteq> None
        \<longrightarrow> hitRate (getStats now (snd (get_cache now' k c))) = hitRate (getStats now c))"
proof -
  let ?valid = "\<lambda>al. length (filter (\<lambda>(key, entry). now \<le> expiresAt entry) al)"
  have formula: "hitRate (getStats now c')
     = (if cache c' = [] then 0
        else double_mul (double_div (of_nat (?valid (cache c'))) (of_nat (length (cache c')))) 100)"
    for c' :: "'a SearchCache"
    by (simp add: getStats_def calculateHitRate_def Let_def o_def case_prod_unfold)
  have fields: "validEntries (getStats now c) = ?valid (cache c)"
    "expiredEntries (getStats now c)
       = length (filter (\<lambda>(key, entry). expiresAt entry < now) (cache c))"
    "totalEntries (getStats now c) = length (cache c)"
    by (simp_all add: getStats_def not_less)
  have zero: "hitRate (getStats now c) = 0"
    if "cache c \<noteq> []" "\<forall>entry \<in> snd ` set (cache c). expiresAt entry < now"
  proof -
    from that(2) have "filter (\<lambda>(key, entry). now \<le> expiresAt entry) (cache c) = []"
      by (auto simp: filter_empty_conv)
    with that(1) show ?thesis by (simp add: formula double_div_def double_mul_def)
  qed
  have full: "hitRate (getStats now c) = 100"
    if "cache c \<noteq> []" "\<forall>entry \<in> snd ` set (cache c). now \<le> expiresAt entry"
  proof -
    from that(2) have "filter (\<lambda>(key, entry). now \<le> expiresAt entry) (cache c) = cache c"
      by (auto simp: filter_id_conv)
    with that(1) show ?thesis
      by (simp add: formula double_div_def double_mul_def round_double_1 round_double_100)
  qed
  have hit: "hitRate (getStats now (snd (get_cache now' k c))) = hitRate (getStats now c)"
    if "fst (get_cache now' k c) \<noteq> None"
  proof -
    from that obtain e where e: "map_of (cache c) k = Some e" "\<not> now' > expiresAt e"
      and c': "cache (snd (get_cache now' k c)) = AList.update k (e\<lparr>lastAccessed := now'\<rparr>) (cache c)"
      by (auto simp: get_cache_def split: option.splits if_splits)
    have "?valid (cache (snd (get_cache now' k c))) = ?valid (cache c)"
      by (simp only: c' count_valid_map update_hit_expiry[OF e(1)])
    moreover have "length (cache (snd (get_cache now' k c))) = length (cache c)"
      using e(1) by (simp add: c' length_update_present)
    moreover have "cache (snd (get_cache now' k c)) = [] \<longleftrightarrow> cache c = []"
      using e(1) by (auto simp: c')
    ultimately show ?thesis by (simp only: formula)
  qed
  from formula[of c] fields zero full hit show ?thesis by blast
qed


text \<open>Two valid entries of three: \<^verbatim>\<open>2 / 3 * 100\<close> is the double 66.66666666666666.\<close>

lemma two_thirds_in_percent:
  "double_mul (double_div 2 3) 100 = 2345624805922133 / 35184372088832"
  by code_simp

theorem hitRate_is_share_of_valid_entries_witness:
  "hitRate (getStats 11 served_cache) = 0
   \<and> hitRate (getStats 5 short_lived_cache) = 100
   \<and> hitRate (getStats 5 (snd (get_cache 2 ''k'' short_lived_cache))) = 100
   \<and> validEntries (getStats 11 mixed_cache) = 2
   \<and> totalEntries (getStats 11 mixed_cache) = 3
   \<and> hitRate (getStats 11 mixed_cache) = 2345624805922133 / 35184372088832"
proof -
  have served: "cache served_cache \<noteq> [] \<and> (\<forall>entry \<in> snd ` set (cache served_cache). expiresAt entry < 11)"
    by (simp add: served_cache_def short_lived_cache_def get_cache_def set_cache_def
        new_SearchCache_def)
  have fresh: "cache short_lived_cache \<noteq> []
      \<and> (\<forall>entry \<in> snd ` set (cache short_lived_cache). 5 \<le> expiresAt entry)"
    by (simp add: short_lived_cache_def set_cache_def new_SearchCache_def)
  have read: "fst (get_cache 2 ''k'' short_lived_cache) \<noteq> None"
    by (simp add: short_lived_cache_def get_cache_def set_cache_def new_SearchCache_def)
  have mixed: "cache mixed_cache \<noteq> []"
    "length (filter (\<lambda>(key, entry). 11 \<le> expiresAt entry) (cache mixed_cache)) = 2"
    "length (cache mixed_cache) = 3"
    by (simp_all add: mixed_cache_def set_cache_def new_SearchCache_def)
  from hitRate_is_share_of_valid_entries [where now = 11 and c = served_cache] served
  have a: "hitRate (getStats 11 served_cache) = 0" by blast
  from hitRate_is_share_of_valid_entries [where now = 5 and c = short_lived_cache
      and now' = 2 and k = "''k''"] fresh read
  have b: "hitRate (getStats 5 short_lived_cache) = 100"
    "hitRate (getStats 5 (snd (get_cache 2 ''k'' short_lived_cache))) = 100" by simp_all
  from hitRate_is_share_of_valid_entries [where now = 11 and c = mixed_cache] mixed
  have c: "validEntries (getStats 11 mixed_cache) = 2" "totalEntries (getStats 11 mixed_cache) = 3"
    "hitRate (getStats 11 mixed_cache) = 2345624805922133 / 35184372088832"
    by (simp_all add: two_thirds_in_percent)
  from a b c show ?thesis by simp
qed

section \<open>A provider's resolution: termination and summary\<close>

text \<open>
  Every retry raises the provider's attempt counter and a retry needs the counter below
  \<open>maxRetries\<close>, so the mutual recursion of \<^verbatim>\<open>searchEngineWithErrorHandling\<close> and
  \<^verbatim>\<open>retrySearch\<close> ends.
\<close>

lemma logError_frame [simp]:
  "retryAttempts (logError errorInfo eh) = retryAttempts eh"
  "maxRetries (logError errorInfo eh) = maxRetries eh"
  by (simp_all add: logError_def Let_def)

lemma getRetryAttempts_cong:
  "retryAttempts eh' = retryAttempts eh \<Longrightarrow> getRetryAttempts eh' engine = getRetryAttempts eh engine"
  by (simp add: getRetryAttempts_def)

lemma handleEngineError_frame:
  assumes "handleEngineError now error engine eh = (errorInfo, eh')"
  shows "retryAttempts eh' = retryAttempts eh" and "maxRetries eh' = maxRetries eh"
    and "info_shouldRetry errorInfo \<Longrightarrow> getRetryAttempts eh engine < maxRetries eh"
  using assms
  by (auto simp: handleEngineError_def handleTimeoutError_def handleCORSError_def
      handleNetworkError_def handleAPIError_def handleGeneralError_def shouldRetry_def
      getRetryAttempts_def Let_def split: if_splits)

lemma callSearch_Inl:
  "callSearch engine adapter query language cacheKey m = (Inl error, m1) \<Longrightarrow>
     errorHandler m1 = errorHandler m \<and> adapters m1 = adapters m"
  by (auto simp: callSearch_def emit_def Let_def split: prod.splits sum.splits)

lemma trySearch_Inl:
  "trySearch engine adapter query language m = (Inl error, m1) \<Longrightarrow>
     errorHandler m1 = errorHandler m \<and> adapters m1 = adapters m"
  by (auto simp: trySearch_def emit_def Let_def
      split: prod.splits option.splits if_splits dest!: callSearch_Inl)

lemma getRetryAttempts_record [simp]:
  "getRetryAttempts (recordRetryAttempt engine eh) engine = getRetryAttempts eh engine + 1"
  by (simp add: recordRetryAttempt_def getRetryAttempts_def Let_def update_conv')

lemma maxRetries_record [simp]:
  "maxRetries (recordRetryAttempt engine eh) = maxRetries eh"
  by (simp add: recordRetryAttempt_def Let_def)

termination searchEngineWithErrorHandling
proof (relation "measure (\<lambda>x. case x of
          Inl (engine, query, language, m) \<Rightarrow>
            2 * (maxRetries (errorHandler m) - getRetryAttempts (errorHandler m) engine) + 1
        | Inr (engine, query, language, delay, m) \<Rightarrow>
            2 * (maxRetries (errorHandler m) - (getRetryAttempts (errorHandler m) engine + 1)) + 2)",
    goal_cases)
  case 1
  show ?case by simp
next
  case (2 engine query language m adapter x1 y error errorInfo eh)
  from 2(2,3) have "trySearch engine adapter query language m = (Inl error, y)" by simp
  then have eh: "errorHandler y = errorHandler m" by (simp add: trySearch_Inl)
  from 2(4) have h: "handleEngineError (clock y) error engine (errorHandler y) = (errorInfo, eh)"
    by simp
  from handleEngineError_frame[OF h] 2(5) eh
  have "retryAttempts eh = retryAttempts (errorHandler m)" "maxRetries eh = maxRetries (errorHandler m)"
    "getRetryAttempts (errorHandler m) engine < maxRetries (errorHandler m)" by simp_all
  then show ?case
    by (simp add: emit_def getRetryAttempts_cong[of eh "errorHandler m"])
next
  case (3 engine query language delay m)
  show ?case by (simp add: emit_def)
qed

declare searchEngineWithErrorHandling.simps [simp del] retrySearch.simps [simp del]

lemma searchCalls_simps [simp]:
  "searchCalls engine [] = 0"
  "searchCalls engine (ev # evs) = (if ev = Search engine then 1 else 0) + searchCalls engine evs"
  "searchCalls engine (xs @ ys) = searchCalls engine xs + searchCalls engine ys"
  by (simp_all add: searchCalls_def)

lemma delaysOf_append [simp]: "delaysOf engine (xs @ ys) = delaysOf engine xs @ delaysOf engine ys"
  by (induction engine xs rule: delaysOf.induct) simp_all

lemma getRetryAttempts_record_other [simp]:
  "e \<noteq> engine \<Longrightarrow> getRetryAttempts (recordRetryAttempt engine eh) e = getRetryAttempts eh e"
  by (simp add: recordRetryAttempt_def getRetryAttempts_def Let_def update_conv')

lemma getRetryAttempts_reset [simp]:
  "getRetryAttempts (resetRetryAttempts engine eh) e = (if e = engine then 0 else getRetryAttempts eh e)"
  by (simp add: resetRetryAttempts_def getRetryAttempts_def delete_conv')

lemma maxRetries_reset [simp]: "maxRetries (resetRetryAttempts engine eh) = maxRetries eh"
  by (simp add: resetRetryAttempts_def)

lemma handleEngineError_delay:
  assumes "handleEngineError now error engine eh = (errorInfo, eh')" "info_shouldRetry errorInfo"
  shows "info_retryDelay errorInfo = Some (min (1000 * 2 ^ getRetryAttempts eh engine) 10000)"
  using assms
  by (auto simp: handleEngineError_def handleTimeoutError_def handleCORSError_def
      handleNetworkError_def handleAPIError_def handleGeneralError_def shouldRetry_def
      getRetryDelay_def getRetryAttempts_def Let_def split: if_splits)

lemma callSearch_summary:
  assumes "callSearch engine adapter query language cacheKey m = (r, m1)"
  shows "adapters m1 = adapters m"
    and "maxRetries (errorHandler m1) = maxRetries (errorHandler m)"
    and "e \<noteq> engine \<Longrightarrow> getRetryAttempts (errorHandler m1) e = getRetryAttempts (errorHandler m) e"
    and "trace m1 = trace m @ [Search engine] \<or> trace m1 = trace m @ [Search engine, DisplayResults engine]"
    and "r = Inr ret \<Longrightarrow> ret_status ret = ''fulfilled'' \<and> getRetryAttempts (errorHandler m1) engine = 0"
  using assms
  by (auto simp: callSearch_def emit_def Let_def split: prod.splits sum.splits)

lemma trySearch_summary:
  assumes "trySearch engine adapter query language m = (r, m1)"
  shows "adapters m1 = adapters m"
    and "maxRetries (errorHandler m1) = maxRetries (errorHandler m)"
    and "e \<noteq> engine \<Longrightarrow> getRetryAttempts (errorHandler m1) e = getRetryAttempts (errorHandler m) e"
    and "\<exists>evs. trace m1 = trace m @ evs \<and> searchCalls engine evs \<le> 1
           \<and> (\<forall>e. delaysOf e evs = []) \<and> (\<forall>e. e \<noteq> engine \<longrightarrow> searchCalls e evs = 0)"
    and "r = Inr ret \<Longrightarrow> ret_status ret = ''fulfilled''"
proof -
  note defs = trySearch_def emit_def Let_def
  show "adapters m1 = adapters m"
    using assms by (auto simp: defs split: prod.splits option.splits if_splits dest: callSearch_summary(1))
  show "maxRetries (errorHandler m1) = maxRetries (errorHandler m)"
    using assms by (auto simp: defs split: prod.splits option.splits if_splits dest: callSearch_summary(2))
  show "getRetryAttempts (errorHandler m1) e = getRetryAttempts (errorHandler m) e" if "e \<noteq> engine"
    using assms that by (auto simp: defs split: prod.splits option.splits if_splits dest: callSearch_summary(3))
  show "\<exists>evs. trace m1 = trace m @ evs \<and> searchCalls engine evs \<le> 1
           \<and> (\<forall>e. delaysOf e evs = []) \<and> (\<forall>e. e \<noteq> engine \<longrightarrow> searchCalls e evs = 0)"
    using assms by (auto simp: defs split: prod.splits option.splits if_splits dest!: callSearch_summary(4))
  show "ret_status ret = ''fulfilled''" if "r = Inr ret"
    using assms that by (auto simp: defs split: prod.splits option.splits if_splits dest: callSearch_summary(5))
qed


lemma chain_summary:
  "\<forall>r m'. searchEngineWithErrorHandling engine query language m = (r, m') \<longrightarrow>
     adapters m' = adapters m \<and> maxRetries (errorHandler m') = maxRetries (errorHandler m)
     \<and> (\<forall>e. e \<noteq> engine \<longrightarrow>
           getRetryAttempts (errorHandler m') e = getRetryAttempts (errorHandler m) e)
     \<and> (\<exists>evs n. trace m' = trace m @ evs
           \<and> n \<le> maxRetries (errorHandler m) - getRetryAttempts (errorHandler m) engine
           \<and> delaysOf engine evs =
               map (\<lambda>i. min (1000 * 2 ^ i) 10000)
                 [getRetryAttempts (errorHandler m) engine ..<
                  getRetryAttempts (errorHandler m) engine + n]
           \<and> searchCalls engine evs \<le> n + 1
           \<and> (\<forall>e. e \<noteq> engine \<longrightarrow> searchCalls e evs = 0 \<and> delaysOf e evs = [])
           \<and> (\<forall>ret. r = Inr ret \<and> ret_status ret = ''rejected'' \<longrightarrow>
                 getRetryAttempts (errorHandler m') engine
                   = getRetryAttempts (errorHandler m) engine + n))"
  and
  "\<forall>r m'. retrySearch engine query language delay m = (r, m') \<longrightarrow>
     adapters m' = adapters m \<and> maxRetries (errorHandler m') = maxRetries (errorHandler m)
     \<and> (\<forall>e. e \<noteq> engine \<longrightarrow>
           getRetryAttempts (errorHandler m') e = getRetryAttempts (errorHandler m) e)
     \<and> (\<exists>evs n. trace m' = trace m @ evs
           \<and> n \<le> maxRetries (errorHandler m) - (getRetryAttempts (errorHandler m) engine + 1)
           \<and> delaysOf engine evs =
               delay # map (\<lambda>i. min (1000 * 2 ^ i) 10000)
                 [getRetryAttempts (errorHandler m) engine + 1 ..<
                  getRetryAttempts (errorHandler m) engine + 1 + n]
           \<and> searchCalls engine evs \<le> n + 1
           \<and> (\<forall>e. e \<noteq> engine \<longrightarrow> searchCalls e evs = 0 \<and> delaysOf e evs = [])
           \<and> (\<forall>ret. r = Inr ret \<and> ret_status ret = ''rejected'' \<longrightarrow>
                 getRetryAttempts (errorHandler m') engine
                   = getRetryAttempts (errorHandler m) engine + 1 + n))"
proof (induction engine query language m and engine query language delay m
    rule: searchEngineWithErrorHandling_retrySearch.induct)
  case (1 engine query language m)
  let ?a = "getRetryAttempts (errorHandler m) engine"
  let ?M = "maxRetries (errorHandler m)"
  show ?case
  proof (intro allI impI)
    fix r m'
    assume run: "searchEngineWithErrorHandling engine query language m = (r, m')"
    show "adapters m' = adapters m \<and> maxRetries (errorHandler m') = ?M
     \<and> (\<forall>e. e \<noteq> engine \<longrightarrow> getRetryAttempts (errorHandler m') e = getRetryAttempts (errorHandler m) e)
     \<and> (\<exists>evs n. trace m' = trace m @ evs \<and> n \<le> ?M - ?a
           \<and> delaysOf engine evs = map (\<lambda>i. min (1000 * 2 ^ i) 10000) [?a ..< ?a + n]
           \<and> searchCalls engine evs \<le> n + 1
           \<and> (\<forall>e. e \<noteq> engine \<longrightarrow> searchCalls e evs = 0 \<and> delaysOf e evs = [])
           \<and> (\<forall>ret. r = Inr ret \<and> ret_status ret = ''rejected'' \<longrightarrow>
                 getRetryAttempts (errorHandler m') engine = ?a + n))"
    proof (cases "map_of (adapters m) engine")
      case None
      with run have "r = Inl (Error (msg_unknown_engine @ engine))" "m' = m"
        by (simp_all add: searchEngineWithErrorHandling.simps)
      then show ?thesis by (auto intro!: exI[of _ "[]"] exI[of _ 0])
    next
      case (Some adapter)
      obtain x m1 where tried: "trySearch engine adapter query language m = (x, m1)"
        by (cases "trySearch engine adapter query language m")
      note ts = trySearch_summary[OF tried]
      from ts(4) obtain evs1 where evs1: "trace m1 = trace m @ evs1" "searchCalls engine evs1 \<le> 1"
        "\<forall>e. delaysOf e evs1 = []" "\<forall>e. e \<noteq> engine \<longrightarrow> searchCalls e evs1 = 0" by blast
      show ?thesis
      proof (cases x)
        case (Inr returned)
        with run Some tried have res: "r = Inr returned" "m' = m1"
          by (simp_all add: searchEngineWithErrorHandling.simps)
        from ts(5)[OF Inr] have "ret_status returned = ''fulfilled''" .
        with res ts(1,2,3) evs1 show ?thesis
          by (auto intro!: exI[of _ evs1] exI[of _ 0])
      next
        case (Inl error)
        from trySearch_Inl tried Inl have eh1: "errorHandler m1 = errorHandler m" by blast
        obtain errorInfo eh where
          h: "handleEngineError (clock m1) error engine (errorHandler m1) = (errorInfo, eh)"
          by (cases "handleEngineError (clock m1) error engine (errorHandler m1)")
        note hf = handleEngineError_frame[OF h]
        have att: "getRetryAttempts eh e = getRetryAttempts (errorHandler m) e" for e
          using hf(1) eh1 by (simp add: getRetryAttempts_def)
        have mx: "maxRetries eh = ?M" using hf(2) eh1 by simp
        let ?m2 = "emit (DisplayError engine) (m1\<lparr>errorHandler := eh\<rparr>)"
        show ?thesis
        proof (cases "info_shouldRetry errorInfo")
          case False
          with run Some tried Inl h have res:
            "r = Inr \<lparr>ret_engine = engine, ret_status = ''rejected'', ret_value = None,
                      ret_reason = Some errorInfo\<rparr>" "m' = ?m2"
            by (simp_all add: searchEngineWithErrorHandling.simps)
          with ts(1) att mx evs1 show ?thesis
            by (auto simp: emit_def intro!: exI[of _ "evs1 @ [DisplayError engine]"] exI[of _ 0])
        next
          case True
          let ?d = "case info_retryDelay errorInfo of None \<Rightarrow> 0 | Some d \<Rightarrow> d"
          from run Some tried Inl h True have rr: "retrySearch engine query language ?d ?m2 = (r, m')"
            by (simp add: searchEngineWithErrorHandling.simps)
          from handleEngineError_delay[OF h True] eh1
          have d: "?d = min (1000 * 2 ^ ?a) 10000" by simp
          from hf(3)[OF True] eh1 have lt: "?a < ?M" by simp
          have a2: "getRetryAttempts (errorHandler ?m2) e = getRetryAttempts (errorHandler m) e" for e
            using att by (simp add: emit_def)
          have M2: "maxRetries (errorHandler ?m2) = ?M" using mx by (simp add: emit_def)
          from "1.IH"[OF Some tried[symmetric] Inl h[symmetric] True, rule_format, OF rr]
          obtain evs n where
            fr: "adapters m' = adapters ?m2" "maxRetries (errorHandler m') = maxRetries (errorHandler ?m2)"
              "\<forall>e. e \<noteq> engine \<longrightarrow> getRetryAttempts (errorHandler m') e = getRetryAttempts (errorHandler ?m2) e"
            and ev: "trace m' = trace ?m2 @ evs"
              "n \<le> maxRetries (errorHandler ?m2) - (getRetryAttempts (errorHandler ?m2) engine + 1)"
              "delaysOf engine evs = ?d # map (\<lambda>i. min (1000 * 2 ^ i) 10000)
                 [getRetryAttempts (errorHandler ?m2) engine + 1 ..<
                  getRetryAttempts (errorHandler ?m2) engine + 1 + n]"
              "searchCalls engine evs \<le> n + 1"
              "\<forall>e. e \<noteq> engine \<longrightarrow> searchCalls e evs = 0 \<and> delaysOf e evs = []"
              "\<forall>ret. r = Inr ret \<and> ret_status ret = ''rejected'' \<longrightarrow>
                 getRetryAttempts (errorHandler m') engine
                   = getRetryAttempts (errorHandler ?m2) engine + 1 + n"
            by blast
          let ?evs = "evs1 @ [DisplayError engine] @ evs"
          have t: "trace m' = trace m @ ?evs" using ev(1) evs1(1) by (simp add: emit_def)
          have n: "Suc n \<le> ?M - ?a" using ev(2) lt by (simp add: a2 M2)
          have up: "[?a ..< ?a + Suc n] = ?a # [?a + 1 ..< ?a + 1 + n]"
            by (simp add: upt_conv_Cons del: upt_Suc)
          have "delaysOf engine ?evs = delaysOf engine evs" using evs1(3) by simp
          also have "\<dots> = min (1000 * 2 ^ ?a) 10000 #
              map (\<lambda>i. min (1000 * 2 ^ i) 10000) [?a + 1 ..< ?a + 1 + n]"
            using ev(3) by (simp only: a2 d)
          finally have dl: "delaysOf engine ?evs
              = map (\<lambda>i. min (1000 * 2 ^ i) 10000) [?a ..< ?a + Suc n]"
            by (simp only: up list.map)
          have sc: "searchCalls engine ?evs \<le> Suc n + 1" using ev(4) evs1(2) by simp
          have ot: "\<forall>e. e \<noteq> engine \<longrightarrow> searchCalls e ?evs = 0 \<and> delaysOf e ?evs = []"
            using ev(5) evs1(3,4) by simp
          have rj: "\<forall>ret. r = Inr ret \<and> ret_status ret = ''rejected'' \<longrightarrow>
                 getRetryAttempts (errorHandler m') engine = ?a + Suc n"
            using ev(6) by (simp add: a2)
          have f1: "adapters m' = adapters m" using fr(1) ts(1) by (simp add: emit_def)
          have f2: "maxRetries (errorHandler m') = ?M" using fr(2) M2 by simp
          have f3: "\<forall>e. e \<noteq> engine \<longrightarrow>
              getRetryAttempts (errorHandler m') e = getRetryAttempts (errorHandler m) e"
            using fr(3) a2 by simp
          from t n dl sc ot rj f1 f2 f3 show ?thesis by blast
        qed
      qed
    qed
  qed
next
  case (2 engine query language delay m)
  let ?m1 = "(emit (Delay engine delay)
           (m\<lparr>errorHandler := recordRetryAttempt engine (errorHandler m)\<rparr>))
        \<lparr>clock := clock m + max 0 delay\<rparr>"
  show ?case
  proof (intro allI impI)
    fix r m'
    assume "retrySearch engine query language delay m = (r, m')"
    then have run: "searchEngineWithErrorHandling engine query language ?m1 = (r, m')"
      by (simp add: retrySearch.simps)
    have a1: "getRetryAttempts (errorHandler ?m1) engine = getRetryAttempts (errorHandler m) engine + 1"
      by (simp add: emit_def)
    have o1: "e \<noteq> engine \<Longrightarrow> getRetryAttempts (errorHandler ?m1) e = getRetryAttempts (errorHandler m) e" for e
      by (simp add: emit_def)
    have M1: "maxRetries (errorHandler ?m1) = maxRetries (errorHandler m)" by (simp add: emit_def)
    have ad: "adapters ?m1 = adapters m" by (simp add: emit_def)
    have tr: "trace ?m1 = trace m @ [Delay engine delay]" by (simp add: emit_def)
    from "2.IH"[rule_format, OF run] obtain evs n where
      fr: "adapters m' = adapters ?m1" "maxRetries (errorHandler m') = maxRetries (errorHandler ?m1)"
        "\<forall>e. e \<noteq> engine \<longrightarrow> getRetryAttempts (errorHandler m') e = getRetryAttempts (errorHandler ?m1) e"
      and ev: "trace m' = trace ?m1 @ evs"
        "n \<le> maxRetries (errorHandler ?m1) - getRetryAttempts (errorHandler ?m1) engine"
        "delaysOf engine evs = map (\<lambda>i. min (1000 * 2 ^ i) 10000)
           [getRetryAttempts (errorHandler ?m1) engine ..<
            getRetryAttempts (errorHandler ?m1) engine + n]"
        "searchCalls engine evs \<le> n + 1"
        "\<forall>e. e \<noteq> engine \<longrightarrow> searchCalls e evs = 0 \<and> delaysOf e evs = []"
        "\<forall>ret. r = Inr ret \<and> ret_status ret = ''rejected'' \<longrightarrow>
           getRetryAttempts (errorHandler m') engine
             = getRetryAttempts (errorHandler ?m1) engine + n"
      by blast
    let ?evs = "Delay engine delay # evs"
    have "trace m' = trace m @ ?evs" using ev(1) tr by simp
    moreover have "n \<le> maxRetries (errorHandler m) - (getRetryAttempts (errorHandler m) engine + 1)"
      using ev(2) by (simp only: a1 M1)
    moreover have "delaysOf engine ?evs = delay # map (\<lambda>i. min (1000 * 2 ^ i) 10000)
                 [getRetryAttempts (errorHandler m) engine + 1 ..<
                  getRetryAttempts (errorHandler m) engine + 1 + n]"
      using ev(3) by (simp only: a1 delaysOf.simps simp_thms if_True)
    moreover have "searchCalls engine ?evs \<le> n + 1" using ev(4) by simp
    moreover have "\<forall>e. e \<noteq> engine \<longrightarrow> searchCalls e ?evs = 0 \<and> delaysOf e ?evs = []"
      using ev(5) by simp
    moreover have "\<forall>ret. r = Inr ret \<and> ret_status ret = ''rejected'' \<longrightarrow>
                 getRetryAttempts (errorHandler m') engine
                   = getRetryAttempts (errorHandler m) engine + 1 + n"
      using ev(6) by (simp only: a1)
    moreover have "adapters m' = adapters m" using fr(1) ad by simp
    moreover have "maxRetries (errorHandler m') = maxRetries (errorHandler m)" using fr(2) M1 by simp
    moreover have "\<forall>e. e \<noteq> engine \<longrightarrow>
        getRetryAttempts (errorHandler m') e = getRetryAttempts (errorHandler m) e"
      using fr(3) o1 by simp
    ultimately show "adapters m' = adapters m \<and> maxRetries (errorHandler m') = maxRetries (errorHandler m)
     \<and> (\<forall>e. e \<noteq> engine \<longrightarrow>
           getRetryAttempts (errorHandler m') e = getRetryAttempts (errorHandler m) e)
     \<and> (\<exists>evs n. trace m' = trace m @ evs
           \<and> n \<le> maxRetries (errorHandler m) - (getRetryAttempts (errorHandler m) engine + 1)
           \<and> delaysOf engine evs =
               delay # map (\<lambda>i. min (1000 * 2 ^ i) 10000)
                 [getRetryAttempts (errorHandler m) engine + 1 ..<
                  getRetryAttempts (errorHandler m) engine + 1 + n]
           \<and> searchCalls engine evs \<le> n + 1
           \<and> (\<forall>e. e \<noteq> engine \<longrightarrow> searchCalls e evs = 0 \<and> delaysOf e evs = [])
           \<and> (\<forall>ret. r = Inr ret \<and> ret_status ret = ''rejected'' \<longrightarrow>
                 getRetryAttempts (errorHandler m') engine
                   = getRetryAttempts (errorHandler m) engine + 1 + n))"
      by blast
  qed
qed

section \<open>Retry policy\<close>

lemma backoff_mono:
  assumes "i \<le> j"
  shows "min (1000 * 2 ^ i) (10000::int) \<le> min (1000 * 2 ^ j) 10000"
proof (rule min.mono)
  from assms have "(2::int) ^ i \<le> 2 ^ j" by (simp add: power_increasing)
  then show "(1000::int) * 2 ^ i \<le> 1000 * 2 ^ j" by simp
  show "(10000::int) \<le> 10000" by simp
qed

lemma sorted_backoff: "sorted (map (\<lambda>i. min (1000 * 2 ^ i) (10000::int)) [a..<b])"
proof -
  have "sorted_wrt (\<lambda>i j. min (1000 * 2 ^ i) (10000::int) \<le> min (1000 * 2 ^ j) 10000) [a..<b]"
  proof (rule sorted_wrt_mono_rel[OF _ sorted_wrt_upt])
    fix x y :: nat
    assume "x < y"
    then have "x \<le> y" by simp
    then show "min (1000 * 2 ^ x) (10000::int) \<le> min (1000 * 2 ^ y) 10000" by (rule backoff_mono)
  qed
  then show ?thesis by (simp only: sorted_map)
qed

text \<open>
  C5. A provider whose retry counter is zero when its resolution starts has its \<^verbatim>\<open>search\<close>
  invoked at most \<open>1 + maxRetries\<close> times (4 with the configured 3), whatever the provider
  answers, so in particular when it fails with a retryable error every time. The delays
  between the attempts are \<open>min (1000 * 2 ^ attemptCount) 10000\<close> for the counter values
  0, 1, 2, ... in turn, and they never decrease.
\<close>

theorem retry_bound_and_backoff:
  assumes "getRetryAttempts (errorHandler m) engine = 0"
    and "searchEngineWithErrorHandling engine query language m = (r, m')"
  shows "\<exists>evs n. trace m' = trace m @ evs \<and> n \<le> maxRetries (errorHandler m)
           \<and> searchCalls engine evs \<le> 1 + maxRetries (errorHandler m)
           \<and> (maxRetries (errorHandler m) = 3 \<longrightarrow> searchCalls engine evs \<le> 4)
           \<and> delaysOf engine evs = map (\<lambda>attemptCount. min (1000 * 2 ^ attemptCount) 10000) [0..<n]
           \<and> sorted (delaysOf engine evs)"
proof -
  from chain_summary(1)[rule_format, OF assms(2)] assms(1)
  obtain evs n where ev: "trace m' = trace m @ evs" "n \<le> maxRetries (errorHandler m)"
    "delaysOf engine evs = map (\<lambda>i. min (1000 * 2 ^ i) 10000) [0..<n]"
    "searchCalls engine evs \<le> n + 1"
    by auto
  have "sorted (delaysOf engine evs)" by (simp only: ev(3) sorted_backoff)
  moreover have "searchCalls engine evs \<le> 1 + maxRetries (errorHandler m)" using ev(2,4) by simp
  moreover have "maxRetries (errorHandler m) = 3 \<longrightarrow> searchCalls engine evs \<le> 4" using ev(2,4) by simp
  ultimately show ?thesis using ev(1,2,3) by blast
qed

text \<open>The definitions a run on a concrete configuration unfolds.\<close>

lemmas eval_defs = searchEngineWithErrorHandling.simps retrySearch.simps trySearch_def callSearch_def
  emit_def handleEngineError_def handleTimeoutError_def handleCORSError_def
  handleNetworkError_def handleAPIError_def handleGeneralError_def shouldRetry_def
  getRetryDelay_def getRetryAttempts_def recordRetryAttempt_def resetRetryAttempts_def logError_def
  new_SearchManager_def new_ErrorHandler_def new_SearchCache_def get_cache_def set_cache_def
  generateCacheKey_def toLowerCase_def trim_def trimStart_def trimEnd_def white_space1_def
  white_space2_def white_space3_def Error_def Let_def

lemma failing_chain_trace:
  "trace (snd (searchEngineWithErrorHandling ''providerA'' ''cats'' ''en'' failing_manager)) =
     [CacheGet ''providerA:en:cats'', Search ''providerA'', DisplayError ''providerA'',
      Delay ''providerA'' 1000, CacheGet ''providerA:en:cats'', Search ''providerA'',
      DisplayError ''providerA'', Delay ''providerA'' 2000, CacheGet ''providerA:en:cats'',
      Search ''providerA'', DisplayError ''providerA'', Delay ''providerA'' 4000,
      CacheGet ''providerA:en:cats'', Search ''providerA'', DisplayError ''providerA'']"
  by (simp add: eval_defs failing_manager_def failing_adapter_def network_failure_def)

theorem retry_bound_and_backoff_witness:
  "getRetryAttempts (errorHandler failing_manager) ''providerA'' = 0
   \<and> searchCalls ''providerA''
        (trace (snd (searchEngineWithErrorHandling ''providerA'' ''cats'' ''en'' failing_manager))) = 4
   \<and> delaysOf ''providerA''
        (trace (snd (searchEngineWithErrorHandling ''providerA'' ''cats'' ''en'' failing_manager)))
       = [1000, 2000, 4000]"
  using retry_bound_and_backoff [where m = failing_manager and engine = "''providerA''"
      and query = "''cats''" and language = "''en''"
      and r = "fst (searchEngineWithErrorHandling ''providerA'' ''cats'' ''en'' failing_manager)"
      and m' = "snd (searchEngineWithErrorHandling ''providerA'' ''cats'' ''en'' failing_manager)"]
  by (simp add: failing_chain_trace)
     (simp add: failing_manager_def new_SearchManager_def new_ErrorHandler_def getRetryAttempts_def)

section \<open>The aggregated result\<close>

text \<open>
  C1. The claim: when provider A fails until its retries are exhausted and provider B
  succeeds, the call returns, A's slot has status \<open>error\<close>, B's slot has status \<open>success\<close>, and
  the summary counts one failed and one successful provider. The code: the call returns, but
  \<^verbatim>\<open>Promise.allSettled\<close> wraps the object \<^verbatim>\<open>{engine, status: 'rejected', reason}\<close> that A's
  resolution returns into \<^verbatim>\<open>{status: 'fulfilled', value}\<close>, and \<^verbatim>\<open>processSearchResults\<close> tests
  the wrapper. A's slot gets status \<open>success\<close> with the rejected object as its data, and the
  summary counts two successful and no failed provider.
\<close>

theorem failed_provider_reported_as_success:
  "map_sum id
     (\<lambda>pr. (map (\<lambda>(engine, slot). (engine, slot_status slot, map_option ret_status (slot_data slot)))
                 (engines pr),
            summary pr))
     (fst (searchAll ''cats'' ''en'' partial_failure_manager))
   = Inr ([(''providerA'', ''success'', Some ''rejected''),
           (''providerB'', ''success'', Some ''fulfilled'')],
          \<lparr>total = 2, successful = 2, failed = 0, summary_totalResults = 0\<rparr>)"
  by (simp add: eval_defs searchAll_def processSearchResults_def processResult_def
      addToHistory_def evictLRU_def ret_results_def ret_responseTime_def
      partial_failure_manager_def failing_adapter_def working_adapter_def network_failure_def
      cats_result_def)

lemma trim_Nil [simp]: "trim [] = []"
  by (simp add: trim_def trimStart_def trimEnd_def)

text \<open>
  C2. For a query that is empty after trimming, \<^verbatim>\<open>searchAll\<close> throws its error and leaves the
  manager as it was: no cache lookup, no call of a provider, no event in the trace. For every
  other query it returns a result, whatever the providers do.
\<close>

theorem empty_query_is_the_only_raise:
  "(trim query = [] \<longrightarrow> searchAll query language m = (Inl (Error msg_empty_query), m))
   \<and> (trim query \<noteq> [] \<longrightarrow> (\<exists>pr m'. searchAll query language m = (Inr pr, m')))"
  by (auto simp: searchAll_def Let_def split: prod.splits)

theorem empty_query_is_the_only_raise_witness:
  "searchAll [CHR '' '', CHR 0x09, CHR 0xE3, CHR 0x80, CHR 0x80] ''en'' failing_manager
     = (Inl (Error msg_empty_query), failing_manager)
   \<and> (\<exists>pr m'. searchAll ''cats'' ''en'' failing_manager = (Inr pr, m'))"
  using empty_query_is_the_only_raise [where query = "[CHR '' '', CHR 0x09, CHR 0xE3, CHR 0x80, CHR 0x80]"
      and language = "''en''" and m = failing_manager]
    empty_query_is_the_only_raise [where query = "''cats''" and language = "''en''"
      and m = failing_manager]
  by (simp add: trim_def trimStart_def trimEnd_def white_space1_def white_space2_def
      white_space3_def)

section \<open>Cache hits and blocked providers\<close>

text \<open>
  One provider's resolution on a cache hit: when the cache holds an entry that has not expired
  under the provider's key, the resolution is fulfilled with the entry's payload, it only
  looks up the cache and notifies the display, and the provider's \<^verbatim>\<open>search\<close> is not invoked.
  \<^verbatim>\<open>processSearchResults\<close> stores the fulfilled object, not the payload, as the slot's data.
\<close>

lemma cache_hit_resolution:
  assumes "map_of (adapters m) engine = Some adapter"
    and "map_of (cache (manager_cache m)) (generateCacheKey engine query language) = Some entry"
    and "clock m \<le> expiresAt entry"
  shows "fst (searchEngineWithErrorHandling engine query language m)
           = Inr \<lparr>ret_engine = engine, ret_status = ''fulfilled'',
                  ret_value = Some (data entry), ret_reason = None\<rparr>
       \<and> trace (snd (searchEngineWithErrorHandling engine query language m))
           = trace m @ [CacheGet (generateCacheKey engine query language), DisplayResults engine]
       \<and> searchCalls engine
            (drop (length (trace m))
               (trace (snd (searchEngineWithErrorHandling engine query language m)))) = 0
       \<and> map_option slot_data
            (map_of (engines (processResult
                       (Settled_fulfilled \<lparr>ret_engine = engine, ret_status = ''fulfilled'',
                                           ret_value = Some (data entry), ret_reason = None\<rparr>) pr))
               engine)
           = Some (Some \<lparr>ret_engine = engine, ret_status = ''fulfilled'',
                         ret_value = Some (data entry), ret_reason = None\<rparr>)"
proof -
  have hit: "fst (get_cache (clock m) (generateCacheKey engine query language) (manager_cache m))
               = Some (data entry)"
    using assms(2,3) by (simp add: get_cache_def)
  then obtain c where g: "get_cache (clock m) (generateCacheKey engine query language) (manager_cache m)
               = (Some (data entry), c)"
    by (cases "get_cache (clock m) (generateCacheKey engine query language) (manager_cache m)") simp
  have tried: "trySearch engine adapter query language m
      = (Inr \<lparr>ret_engine = engine, ret_status = ''fulfilled'',
               ret_value = Some (data entry), ret_reason = None\<rparr>,
         emit (DisplayResults engine)
           (emit (CacheGet (generateCacheKey engine query language)) (m\<lparr>manager_cache := c\<rparr>)))"
    by (simp add: trySearch_def g)
  have run: "searchEngineWithErrorHandling engine query language m
      = (Inr \<lparr>ret_engine = engine, ret_status = ''fulfilled'',
               ret_value = Some (data entry), ret_reason = None\<rparr>,
         emit (DisplayResults engine)
           (emit (CacheGet (generateCacheKey engine query language)) (m\<lparr>manager_cache := c\<rparr>)))"
    by (simp add: searchEngineWithErrorHandling.simps assms(1) tried)
  show ?thesis
    by (simp add: run emit_def processResult_def ret_results_def ret_responseTime_def update_conv' Let_def)
qed

text \<open>
  C8. The claim: when the cache holds a valid entry for (provider, language, lower-cased and
  trimmed query), the aggregation call returns that payload as the provider's data and does
  not invoke the provider's \<^verbatim>\<open>search\<close>. The code: with the cache seeded for (providerA, en,
  cats), \<^verbatim>\<open>searchAll\<close> for \<open>cats\<close> (and for \<open>Cats\<close> between blanks) looks up the key
  \<open>providerA:en:cats\<close> and does not search, but the data of providerA's slot is the object
  \<^verbatim>\<open>{engine, status: 'fulfilled', value}\<close> that the resolution returned, with the seeded payload
  as its \<open>value\<close>; \<open>resultCount\<close> and \<open>responseTime\<close> are read from that object and are 0, while
  the payload has one result and a response time of 120.
\<close>

theorem cached_payload_is_wrapped_in_slot_data:
  "map_sum id (\<lambda>pr. engines pr) (fst (searchAll ''cats'' ''en'' (seeded_manager\<lparr>clock := 1000\<rparr>)))
     = Inr [(''providerA'',
             \<lparr>slot_status = ''success'',
              slot_data = Some \<lparr>ret_engine = ''providerA'', ret_status = ''fulfilled'',
                                ret_value = Some (cats_result ''providerA''), ret_reason = None\<rparr>,
              slot_error = None, resultCount = 0, slot_responseTime = 0\<rparr>)]
   \<and> length (results (cats_result ''providerA'')) = 1
   \<and> responseTime (cats_result ''providerA'') = 120
   \<and> trace (snd (searchAll ''cats'' ''en'' (seeded_manager\<lparr>clock := 1000\<rparr>)))
     = [UpdateEngineHeaders, CacheGet ''providerA:en:cats'', DisplayResults ''providerA'']
   \<and> trace (snd (searchAll ''  Cats '' ''en'' (seeded_manager\<lparr>clock := 1000\<rparr>)))
     = [UpdateEngineHeaders, CacheGet ''providerA:en:cats'', DisplayResults ''providerA'']"
  by (simp add: eval_defs searchAll_def processSearchResults_def processResult_def
      addToHistory_def ret_results_def ret_responseTime_def seeded_manager_def cats_result_def)

text \<open>
  The errors thrown for a blocked provider have the name \<open>Error\<close>, no status and a message
  that contains none of the words the classifier looks for.
\<close>

lemma handle_blocked:
  assumes "msg = msg_rate_limit \<or> msg = msg_not_available"
  shows "handleEngineError now (Error msg) engine eh
     = (\<lparr>info_type = ''general'', info_engine = engine, info_message = msg,
         info_statusCode = None, info_timestamp = now, info_shouldRetry = False,
         info_retryDelay = None\<rparr>,
        logError \<lparr>info_type = ''general'', info_engine = engine, info_message = msg,
         info_statusCode = None, info_timestamp = now, info_shouldRetry = False,
         info_retryDelay = None\<rparr> eh)"
  using assms
  by (auto simp: handleEngineError_def handleGeneralError_def shouldRetry_def Error_def
      msg_rate_limit_def msg_not_available_def Let_def)

lemma trySearch_blocked:
  assumes "fst (get_cache (clock m) (generateCacheKey engine query language) (manager_cache m)) = None"
    and "blocked adapter (clock m)"
  shows "\<exists>msg m1 evs. trySearch engine adapter query language m = (Inl (Error msg), m1)
           \<and> (msg = msg_rate_limit \<or> msg = msg_not_available)
           \<and> trace m1 = trace m @ evs \<and> Search engine \<notin> set evs
           \<and> errorHandler m1 = errorHandler m"
  using assms
  by (auto simp: trySearch_def blocked_def emit_def Let_def split: prod.splits option.splits)

text \<open>
  C9. The claim: when \<^verbatim>\<open>checkRateLimit\<close> or \<^verbatim>\<open>isAvailable\<close> returns false, the provider is
  not searched, no retry is consumed and the failure is classified as unavailable. The
  code: the failure is classified as \<open>general\<close>.
\<close>

theorem rate_limited_provider_is_classified_general:
  "classification (fst (searchEngineWithErrorHandling ''providerA'' ''cats'' ''en'' limited_manager))
     = Some ''general''
   \<and> classification (fst (searchEngineWithErrorHandling ''providerA'' ''cats'' ''en'' limited_manager))
     \<noteq> Some ''unavailable''"
  by (simp add: eval_defs classification_def limited_manager_def limited_adapter_def
      msg_rate_limit_def)

text \<open>
  C9, as the code has it. After a cache miss, when \<^verbatim>\<open>checkRateLimit\<close> or \<^verbatim>\<open>isAvailable\<close> is
  there and returns false, the provider's \<^verbatim>\<open>search\<close> is not invoked, the resolution ends
  rejected with an error record of type \<open>general\<close> that is not retried, and the retry
  counters stay as they were.
\<close>

theorem blocked_provider_is_not_searched:
  assumes "map_of (adapters m) engine = Some adapter"
    and "fst (get_cache (clock m) (generateCacheKey engine query language) (manager_cache m)) = None"
    and "blocked adapter (clock m)"
    and "searchEngineWithErrorHandling engine query language m = (r, m')"
  shows "classification r = Some ''general''
       \<and> (\<exists>info. r = Inr \<lparr>ret_engine = engine, ret_status = ''rejected'', ret_value = None,
                           ret_reason = Some info\<rparr> \<and> \<not> info_shouldRetry info)
       \<and> Search engine \<notin> set (drop (length (trace m)) (trace m'))
       \<and> retryAttempts (errorHandler m') = retryAttempts (errorHandler m)"
proof -
  from trySearch_blocked[OF assms(2,3)] obtain msg m1 evs where
    t: "trySearch engine adapter query language m = (Inl (Error msg), m1)"
    and msg: "msg = msg_rate_limit \<or> msg = msg_not_available"
    and tr: "trace m1 = trace m @ evs" "Search engine \<notin> set evs"
    and eh: "errorHandler m1 = errorHandler m" by blast
  note h = handle_blocked[OF msg, of "clock m1" engine "errorHandler m1"]
  from assms(1,4) t h have r: "r = Inr \<lparr>ret_engine = engine, ret_status = ''rejected'', ret_value = None,
        ret_reason = Some \<lparr>info_type = ''general'', info_engine = engine, info_message = msg,
         info_statusCode = None, info_timestamp = clock m1, info_shouldRetry = False,
         info_retryDelay = None\<rparr>\<rparr>"
    and m': "m' = emit (DisplayError engine) (m1\<lparr>errorHandler := logError \<lparr>info_type = ''general'', info_engine = engine, info_message = msg,
         info_statusCode = None, info_timestamp = clock m1, info_shouldRetry = False,
         info_retryDelay = None\<rparr> (errorHandler m1)\<rparr>)"
    by (simp_all add: searchEngineWithErrorHandling.simps)
  have "classification r = Some ''general''" by (simp add: r classification_def)
  moreover have "\<exists>info. r = Inr \<lparr>ret_engine = engine, ret_status = ''rejected'', ret_value = None,
                           ret_reason = Some info\<rparr> \<and> \<not> info_shouldRetry info"
    by (simp add: r)
  moreover have "Search engine \<notin> set (drop (length (trace m)) (trace m'))"
    using tr by (simp add: m' emit_def)
  moreover have "retryAttempts (errorHandler m') = retryAttempts (errorHandler m)"
    using eh by (simp add: m' emit_def)
  ultimately show ?thesis by blast
qed

theorem blocked_provider_is_not_searched_witness:
  "classification (fst (searchEngineWithErrorHandling ''providerA'' ''cats'' ''en'' offline_manager))
     = Some ''general''
   \<and> Search ''providerA''
       \<notin> set (trace (snd (searchEngineWithErrorHandling ''providerA'' ''cats'' ''en'' offline_manager)))
   \<and> retryAttempts (errorHandler
        (snd (searchEngineWithErrorHandling ''providerA'' ''cats'' ''en'' offline_manager))) = []
   \<and> Search ''providerA''
       \<notin> set (trace (snd (searchEngineWithErrorHandling ''providerA'' ''cats'' ''en'' limited_manager)))"
  using blocked_provider_is_not_searched [where m = offline_manager and engine = "''providerA''"
      and query = "''cats''" and language = "''en''" and adapter = "offline_adapter ''providerA''"
      and r = "fst (searchEngineWithErrorHandling ''providerA'' ''cats'' ''en'' offline_manager)"
      and m' = "snd (searchEngineWithErrorHandling ''providerA'' ''cats'' ''en'' offline_manager)"]
    blocked_provider_is_not_searched [where m = limited_manager and engine = "''providerA''"
      and query = "''cats''" and language = "''en''" and adapter = "limited_adapter ''providerA''"
      and r = "fst (searchEngineWithErrorHandling ''providerA'' ''cats'' ''en'' limited_manager)"
      and m' = "snd (searchEngineWithErrorHandling ''providerA'' ''cats'' ''en'' limited_manager)"]
  by (simp add: offline_manager_def limited_manager_def new_SearchManager_def new_ErrorHandler_def
      new_SearchCache_def get_cache_def blocked_def offline_adapter_def limited_adapter_def)

section \<open>The retry counter across calls\<close>

lemma get_cache_miss:
  "fst (get_cache now key c) = None \<Longrightarrow> map_of (cache (snd (get_cache now key c))) key = None"
  by (auto simp: get_cache_def delete_conv' split: option.splits if_splits)

lemma get_cache_absent:
  "map_of (cache c) key = None \<Longrightarrow> get_cache now key c = (None, c)"
  by (simp add: get_cache_def)

lemma callSearch_cache:
  "callSearch engine adapter query language cacheKey m = (Inl error, m1) \<Longrightarrow>
     manager_cache m1 = manager_cache m"
  by (auto simp: callSearch_def emit_def Let_def split: prod.splits sum.splits)

lemma trySearch_miss:
  assumes "fst (get_cache (clock m) (generateCacheKey engine query language) (manager_cache m)) = None"
    and "trySearch engine adapter query language m = (x, m1)"
  shows "x = Inr ret \<Longrightarrow> getRetryAttempts (errorHandler m1) engine = 0"
    and "x = Inl error \<Longrightarrow>
           map_of (cache (manager_cache m1)) (generateCacheKey engine query language) = None"
proof -
  obtain c where g: "get_cache (clock m) (generateCacheKey engine query language) (manager_cache m)
      = (None, c)"
    using assms(1)
    by (cases "get_cache (clock m) (generateCacheKey engine query language) (manager_cache m)") simp
  from get_cache_miss[OF assms(1)] g
  have c: "map_of (cache c) (generateCacheKey engine query language) = None" by simp
  show "getRetryAttempts (errorHandler m1) engine = 0" if "x = Inr ret"
    using assms(2) that
    by (auto simp: trySearch_def g emit_def Let_def split: prod.splits option.splits if_splits
        dest: callSearch_summary(5))
  show "map_of (cache (manager_cache m1)) (generateCacheKey engine query language) = None"
    if "x = Inl error"
    using assms(2) that c
    by (auto simp: trySearch_def g emit_def Let_def split: prod.splits option.splits if_splits
        dest!: callSearch_cache)
qed

text \<open>
  After a cache miss, a resolution that ends fulfilled has gone through a successful
  \<^verbatim>\<open>search\<close>, which deletes the provider's counter; failed attempts leave the cache without
  the key, so every retry misses again.
\<close>

lemma chain_success_resets:
  "fst (get_cache (clock m) (generateCacheKey engine query language) (manager_cache m)) = None \<longrightarrow>
     (\<forall>r m' ret. searchEngineWithErrorHandling engine query language m = (r, m')
        \<and> r = Inr ret \<and> ret_status ret = ''fulfilled''
        \<longrightarrow> getRetryAttempts (errorHandler m') engine = 0)"
  and
  "map_of (cache (manager_cache m)) (generateCacheKey engine query language) = None \<longrightarrow>
     (\<forall>r m' ret. retrySearch engine query language delay m = (r, m')
        \<and> r = Inr ret \<and> ret_status ret = ''fulfilled''
        \<longrightarrow> getRetryAttempts (errorHandler m') engine = 0)"
proof (induction engine query language m and engine query language delay m
    rule: searchEngineWithErrorHandling_retrySearch.induct)
  case (1 engine query language m)
  show ?case
  proof (intro impI allI, elim conjE)
    fix r m' ret
    assume miss: "fst (get_cache (clock m) (generateCacheKey engine query language) (manager_cache m)) = None"
      and run: "searchEngineWithErrorHandling engine query language m = (r, m')"
      and r: "r = Inr ret" and st: "ret_status ret = ''fulfilled''"
    show "getRetryAttempts (errorHandler m') engine = 0"
    proof (cases "map_of (adapters m) engine")
      case None
      with run r show ?thesis by (simp add: searchEngineWithErrorHandling.simps)
    next
      case (Some adapter)
      obtain x m1 where tried: "trySearch engine adapter query language m = (x, m1)"
        by (cases "trySearch engine adapter query language m")
      note tm = trySearch_miss[OF miss tried]
      show ?thesis
      proof (cases x)
        case (Inr returned)
        with run Some tried have "m' = m1" by (simp add: searchEngineWithErrorHandling.simps)
        with tm(1)[OF Inr] show ?thesis by simp
      next
        case (Inl error)
        obtain errorInfo eh where
          h: "handleEngineError (clock m1) error engine (errorHandler m1) = (errorInfo, eh)"
          by (cases "handleEngineError (clock m1) error engine (errorHandler m1)")
        let ?m2 = "emit (DisplayError engine) (m1\<lparr>errorHandler := eh\<rparr>)"
        show ?thesis
        proof (cases "info_shouldRetry errorInfo")
          case False
          with run Some tried Inl h have
            "r = Inr \<lparr>ret_engine = engine, ret_status = ''rejected'', ret_value = None,
                      ret_reason = Some errorInfo\<rparr>"
            by (simp add: searchEngineWithErrorHandling.simps)
          with r have "ret_status ret = ''rejected''" by auto
          with st show ?thesis by simp
        next
          case True
          let ?d = "case info_retryDelay errorInfo of None \<Rightarrow> 0 | Some d \<Rightarrow> d"
          from run Some tried Inl h True have rr: "retrySearch engine query language ?d ?m2 = (r, m')"
            by (simp add: searchEngineWithErrorHandling.simps)
          have c2: "map_of (cache (manager_cache ?m2)) (generateCacheKey engine query language) = None"
            using tm(2)[OF Inl] by (simp add: emit_def)
          from "1.IH"[OF Some tried[symmetric] Inl h[symmetric] True, rule_format, OF c2] rr r st
          show ?thesis by blast
        qed
      qed
    qed
  qed
next
  case (2 engine query language delay m)
  let ?m1 = "(emit (Delay engine delay)
           (m\<lparr>errorHandler := recordRetryAttempt engine (errorHandler m)\<rparr>))
        \<lparr>clock := clock m + max 0 delay\<rparr>"
  show ?case
  proof (intro impI allI, elim conjE)
    fix r m' ret
    assume absent: "map_of (cache (manager_cache m)) (generateCacheKey engine query language) = None"
      and "retrySearch engine query language delay m = (r, m')"
      and r: "r = Inr ret" and st: "ret_status ret = ''fulfilled''"
    then have run: "searchEngineWithErrorHandling engine query language ?m1 = (r, m')"
      by (simp add: retrySearch.simps)
    have miss: "fst (get_cache (clock ?m1) (generateCacheKey engine query language)
                  (manager_cache ?m1)) = None"
      using absent by (simp add: emit_def get_cache_absent)
    from "2.IH"[rule_format, OF miss] run r st
    show "getRetryAttempts (errorHandler m') engine = 0" by blast
  qed
qed

text \<open>
  The fan-out over distinct providers: each provider's events and counter are its own, and a
  provider whose counter has reached \<open>maxRetries\<close> is searched at most once and never retried.
\<close>

lemma allSettled_summary:
  "distinct es \<Longrightarrow> allSettled es query language m = (rs, m') \<Longrightarrow>
     maxRetries (errorHandler m') = maxRetries (errorHandler m)
     \<and> (\<forall>e. e \<notin> set es \<longrightarrow>
           getRetryAttempts (errorHandler m') e = getRetryAttempts (errorHandler m) e)
     \<and> (\<exists>evs. trace m' = trace m @ evs
           \<and> (\<forall>e. e \<notin> set es \<longrightarrow> searchCalls e evs = 0 \<and> delaysOf e evs = [])
           \<and> (\<forall>e. e \<in> set es
                  \<and> maxRetries (errorHandler m) \<le> getRetryAttempts (errorHandler m) e
                 \<longrightarrow> searchCalls e evs \<le> 1 \<and> delaysOf e evs = []))"
proof (induction es arbitrary: m rs m')
  case Nil
  then show ?case by simp
next
  case (Cons e0 es)
  obtain outcome m1 where c: "searchEngineWithErrorHandling e0 query language m = (outcome, m1)"
    by (cases "searchEngineWithErrorHandling e0 query language m")
  obtain rs2 m2 where a: "allSettled es query language m1 = (rs2, m2)"
    by (cases "allSettled es query language m1")
  from Cons.prems(2) c a have m': "m' = m2" by simp
  from chain_summary(1)[rule_format, OF c] obtain evs1 n where
    f1: "maxRetries (errorHandler m1) = maxRetries (errorHandler m)"
      "\<forall>e. e \<noteq> e0 \<longrightarrow> getRetryAttempts (errorHandler m1) e = getRetryAttempts (errorHandler m) e"
    and e1: "trace m1 = trace m @ evs1"
      "n \<le> maxRetries (errorHandler m) - getRetryAttempts (errorHandler m) e0"
      "delaysOf e0 evs1 = map (\<lambda>i. min (1000 * 2 ^ i) 10000)
         [getRetryAttempts (errorHandler m) e0 ..< getRetryAttempts (errorHandler m) e0 + n]"
      "searchCalls e0 evs1 \<le> n + 1"
      "\<forall>e. e \<noteq> e0 \<longrightarrow> searchCalls e evs1 = 0 \<and> delaysOf e evs1 = []"
    by blast
  from Cons.prems(1) have d: "distinct es" "e0 \<notin> set es" by simp_all
  from Cons.IH[OF d(1) a] obtain evs2 where
    f2: "maxRetries (errorHandler m2) = maxRetries (errorHandler m1)"
      "\<forall>e. e \<notin> set es \<longrightarrow> getRetryAttempts (errorHandler m2) e = getRetryAttempts (errorHandler m1) e"
    and e2: "trace m2 = trace m1 @ evs2"
      "\<forall>e. e \<notin> set es \<longrightarrow> searchCalls e evs2 = 0 \<and> delaysOf e evs2 = []"
      "\<forall>e. e \<in> set es \<and> maxRetries (errorHandler m1) \<le> getRetryAttempts (errorHandler m1) e
           \<longrightarrow> searchCalls e evs2 \<le> 1 \<and> delaysOf e evs2 = []"
    by blast
  have t: "trace m' = trace m @ (evs1 @ evs2)" using e1(1) e2(1) m' by simp
  have g1: "maxRetries (errorHandler m') = maxRetries (errorHandler m)" using f1(1) f2(1) m' by simp
  have g2: "\<forall>e. e \<notin> set (e0 # es) \<longrightarrow>
      getRetryAttempts (errorHandler m') e = getRetryAttempts (errorHandler m) e"
    using f1(2) f2(2) m' by simp
  have g3: "\<forall>e. e \<notin> set (e0 # es) \<longrightarrow> searchCalls e (evs1 @ evs2) = 0 \<and> delaysOf e (evs1 @ evs2) = []"
    using e1(5) e2(2) by simp
  have g4: "searchCalls e (evs1 @ evs2) \<le> 1 \<and> delaysOf e (evs1 @ evs2) = []"
    if "e \<in> set (e0 # es)" "maxRetries (errorHandler m) \<le> getRetryAttempts (errorHandler m) e" for e
  proof (cases "e = e0")
    case True
    from that(2) True e1(2) have "n = 0" by simp
    with e1(3,4) e2(2) d(2) True show ?thesis by simp
  next
    case False
    with that(1) have "e \<in> set es" by simp
    moreover from False that(2) f1 have
      "maxRetries (errorHandler m1) \<le> getRetryAttempts (errorHandler m1) e" by simp
    ultimately have "searchCalls e evs2 \<le> 1 \<and> delaysOf e evs2 = []" using e2(3) by blast
    with False e1(5) show ?thesis by simp
  qed
  from t g1 g2 g3 g4 show ?case by blast
qed


lemma after_first_call_eval:
  "retryAttempts (errorHandler after_first_call) = [(''providerA'', 3)]"
  "maxRetries (errorHandler after_first_call) = 3"
  "adapters after_first_call = [(''providerA'', failing_adapter)]"
  "cache (manager_cache after_first_call) = []"
  "trace after_first_call =
     [UpdateEngineHeaders,
      CacheGet ''providerA:en:cats'', Search ''providerA'', DisplayError ''providerA'',
      Delay ''providerA'' 1000, CacheGet ''providerA:en:cats'', Search ''providerA'',
      DisplayError ''providerA'', Delay ''providerA'' 2000, CacheGet ''providerA:en:cats'',
      Search ''providerA'', DisplayError ''providerA'', Delay ''providerA'' 4000,
      CacheGet ''providerA:en:cats'', Search ''providerA'', DisplayError ''providerA'']"
  by (simp_all add: after_first_call_def eval_defs searchAll_def addToHistory_def
      failing_manager_def network_failure_def failing_adapter_def)


lemma after_second_call_eval:
  "trace after_second_call =
     trace after_first_call
       @ [UpdateEngineHeaders, CacheGet ''providerA:en:cats'', Search ''providerA'',
          DisplayError ''providerA'']"
  by (simp add: after_second_call_def after_first_call_def eval_defs searchAll_def
      addToHistory_def failing_manager_def network_failure_def failing_adapter_def)

text \<open>
  C6. The claim: the retry counter of a provider is reset to zero on its success and at the
  start of a fresh aggregation call. The code: \<^verbatim>\<open>searchAll\<close> never resets it. After a call in
  which the provider exhausted its retries the counter is 3, and in the next call the provider
  is searched once and not retried.
\<close>

theorem new_call_starts_with_exhausted_counter:
  "getRetryAttempts (errorHandler after_first_call) ''providerA'' = 3
   \<and> getRetryAttempts (errorHandler after_first_call) ''providerA'' \<noteq> 0
   \<and> searchCalls ''providerA'' (drop (length (trace after_first_call)) (trace after_second_call)) = 1
   \<and> delaysOf ''providerA'' (drop (length (trace after_first_call)) (trace after_second_call)) = []"
  by (simp add: after_second_call_eval getRetryAttempts_def after_first_call_eval(1))

lemma searchAll_trace:
  assumes "trim query \<noteq> []"
  shows "trace (snd (searchAll query language m))
     = trace (snd (allSettled (map fst (adapters m)) query language (emit UpdateEngineHeaders m)))"
proof -
  from assms have "query \<noteq> []" by auto
  with assms show ?thesis
    by (simp add: searchAll_def addToHistory_def Let_def emit_def split: prod.splits)
qed

text \<open>
  C6, as the code has it. The counter is reset to zero when the provider's search succeeds
  (a resolution that is fulfilled after a cache miss). A resolution that ends rejected leaves
  the counter at least as high as it was. An aggregation call does not reset it: a provider
  whose counter has reached \<open>maxRetries\<close> when the call starts is searched at most once in
  that call and never retried.
\<close>

theorem retry_counter_reset_on_success_only:
  "(fst (get_cache (clock m) (generateCacheKey engine query language) (manager_cache m)) = None
      \<and> fst (searchEngineWithErrorHandling engine query language m) = Inr ret
      \<and> ret_status ret = ''fulfilled''
     \<longrightarrow> getRetryAttempts
           (errorHandler (snd (searchEngineWithErrorHandling engine query language m))) engine = 0)
   \<and> (fst (searchEngineWithErrorHandling engine query language m) = Inr ret
      \<and> ret_status ret = ''rejected''
     \<longrightarrow> getRetryAttempts (errorHandler m) engine
           \<le> getRetryAttempts
               (errorHandler (snd (searchEngineWithErrorHandling engine query language m))) engine)
   \<and> (trim query \<noteq> [] \<and> distinct (map fst (adapters m)) \<and> engine \<in> fst ` set (adapters m)
      \<and> maxRetries (errorHandler m) \<le> getRetryAttempts (errorHandler m) engine
     \<longrightarrow> searchCalls engine (drop (length (trace m)) (trace (snd (searchAll query language m)))) \<le> 1
       \<and> delaysOf engine (drop (length (trace m)) (trace (snd (searchAll query language m)))) = [])"
proof (intro conjI impI)
  let ?run = "searchEngineWithErrorHandling engine query language m"
  have run: "?run = (fst ?run, snd ?run)" by simp
  {
    assume h: "fst (get_cache (clock m) (generateCacheKey engine query language) (manager_cache m)) = None
      \<and> fst ?run = Inr ret \<and> ret_status ret = ''fulfilled''"
    then have a: "fst (get_cache (clock m) (generateCacheKey engine query language) (manager_cache m)) = None"
      and b: "fst ?run = Inr ret" and c: "ret_status ret = ''fulfilled''" by simp_all
    from b have eq: "?run = (Inr ret, snd ?run)" by (simp add: prod_eq_iff)
    show "getRetryAttempts (errorHandler (snd ?run)) engine = 0"
      by (rule chain_success_resets(1)[rule_format, OF a, OF conjI[OF eq conjI[OF refl c]]])
  }
  {
    assume h: "fst ?run = Inr ret \<and> ret_status ret = ''rejected''"
    then have b: "fst ?run = Inr ret" and c: "ret_status ret = ''rejected''" by simp_all
    from b have eq: "?run = (Inr ret, snd ?run)" by (simp add: prod_eq_iff)
    from chain_summary(1)[rule_format, OF eq] obtain n where
      "\<forall>ret'. Inr ret = Inr ret' \<and> ret_status ret' = ''rejected'' \<longrightarrow>
          getRetryAttempts (errorHandler (snd ?run)) engine
            = getRetryAttempts (errorHandler m) engine + n"
      by blast
    with c have "getRetryAttempts (errorHandler (snd ?run)) engine
            = getRetryAttempts (errorHandler m) engine + n" by simp
    then show "getRetryAttempts (errorHandler m) engine
           \<le> getRetryAttempts (errorHandler (snd ?run)) engine" by simp
  }
  assume h: "trim query \<noteq> [] \<and> distinct (map fst (adapters m)) \<and> engine \<in> fst ` set (adapters m)
      \<and> maxRetries (errorHandler m) \<le> getRetryAttempts (errorHandler m) engine"
  let ?m1 = "emit UpdateEngineHeaders m"
  let ?all = "allSettled (map fst (adapters m)) query language ?m1"
  have all: "?all = (fst ?all, snd ?all)" by simp
  from h have d: "distinct (map fst (adapters m))" and mem: "engine \<in> set (map fst (adapters m))"
    and ex: "maxRetries (errorHandler ?m1) \<le> getRetryAttempts (errorHandler ?m1) engine"
    by (simp_all add: emit_def)
  from allSettled_summary[OF d all] mem ex obtain evs where
    ev: "trace (snd ?all) = trace ?m1 @ evs" "searchCalls engine evs \<le> 1" "delaysOf engine evs = []"
    by blast
  from h have "trace (snd (searchAll query language m)) = trace (snd ?all)"
    by (simp add: searchAll_trace)
  with ev(1) have t: "drop (length (trace m)) (trace (snd (searchAll query language m)))
      = UpdateEngineHeaders # evs"
    by (simp add: emit_def)
  show "searchCalls engine (drop (length (trace m)) (trace (snd (searchAll query language m)))) \<le> 1"
    using ev(2) by (simp add: t)
  show "delaysOf engine (drop (length (trace m)) (trace (snd (searchAll query language m)))) = []"
    using ev(3) by (simp add: t)
qed


lemma exhausted_chain_eval:
  "fst (searchEngineWithErrorHandling ''providerA'' ''cats'' ''en'' after_first_call)
     = Inr \<lparr>ret_engine = ''providerA'', ret_status = ''rejected'', ret_value = None,
            ret_reason = Some \<lparr>info_type = ''network'', info_engine = ''providerA'',
                               info_message = ''Network unreachable'', info_statusCode = None,
                               info_timestamp = 7250, info_shouldRetry = False,
                               info_retryDelay = None\<rparr>\<rparr>"
  by (simp add: after_first_call_def eval_defs searchAll_def addToHistory_def
      failing_manager_def network_failure_def failing_adapter_def)

lemma recovering_chain_eval:
  "fst (searchEngineWithErrorHandling ''providerB'' ''cats'' ''en'' recovering_manager)
     = Inr \<lparr>ret_engine = ''providerB'', ret_status = ''fulfilled'',
            ret_value = Some (cats_result ''providerB''), ret_reason = None\<rparr>"
  by (simp add: recovering_manager_def eval_defs working_adapter_def)

theorem retry_counter_reset_on_success_only_witness:
  "getRetryAttempts (errorHandler recovering_manager) ''providerB'' = 2
   \<and> getRetryAttempts
        (errorHandler (snd (searchEngineWithErrorHandling ''providerB'' ''cats'' ''en''
                              recovering_manager))) ''providerB'' = 0
   \<and> getRetryAttempts (errorHandler after_first_call) ''providerA'' = 3
   \<and> getRetryAttempts (errorHandler after_first_call) ''providerA''
       \<le> getRetryAttempts
            (errorHandler (snd (searchEngineWithErrorHandling ''providerA'' ''cats'' ''en''
                                  after_first_call))) ''providerA''
   \<and> searchCalls ''providerA''
        (drop (length (trace after_first_call))
           (trace (snd (searchAll ''cats'' ''en'' after_first_call)))) \<le> 1
   \<and> delaysOf ''providerA''
        (drop (length (trace after_first_call))
           (trace (snd (searchAll ''cats'' ''en'' after_first_call)))) = []"
proof -
  have two: "getRetryAttempts (errorHandler recovering_manager) ''providerB'' = 2"
    by (simp add: recovering_manager_def new_SearchManager_def new_ErrorHandler_def
        recordRetryAttempt_def getRetryAttempts_def Let_def)
  have miss: "fst (get_cache (clock recovering_manager)
                     (generateCacheKey ''providerB'' ''cats'' ''en'')
                     (manager_cache recovering_manager)) = None"
    by (simp add: recovering_manager_def new_SearchManager_def new_SearchCache_def get_cache_def
        Let_def)
  have three: "getRetryAttempts (errorHandler after_first_call) ''providerA'' = 3"
    by (simp add: getRetryAttempts_def after_first_call_eval(1))
  have hyp: "trim ''cats'' \<noteq> [] \<and> distinct (map fst (adapters after_first_call))
      \<and> ''providerA'' \<in> fst ` set (adapters after_first_call)
      \<and> maxRetries (errorHandler after_first_call)
          \<le> getRetryAttempts (errorHandler after_first_call) ''providerA''"
    by (simp add: three after_first_call_eval(2,3) trim_def trimStart_def trimEnd_def
        white_space1_def white_space2_def white_space3_def)
  note success = retry_counter_reset_on_success_only [where m = recovering_manager
      and engine = "''providerB''" and query = "''cats''" and language = "''en''"
      and ret = "\<lparr>ret_engine = ''providerB'', ret_status = ''fulfilled'',
                    ret_value = Some (cats_result ''providerB''), ret_reason = None\<rparr>"]
  note exhausted = retry_counter_reset_on_success_only [where m = after_first_call
      and engine = "''providerA''" and query = "''cats''" and language = "''en''"
      and ret = "\<lparr>ret_engine = ''providerA'', ret_status = ''rejected'', ret_value = None,
            ret_reason = Some \<lparr>info_type = ''network'', info_engine = ''providerA'',
                               info_message = ''Network unreachable'', info_statusCode = None,
                               info_timestamp = 7250, info_shouldRetry = False,
                               info_retryDelay = None\<rparr>\<rparr>"]
  from success miss recovering_chain_eval have zero:
    "getRetryAttempts
        (errorHandler (snd (searchEngineWithErrorHandling ''providerB'' ''cats'' ''en''
                              recovering_manager))) ''providerB'' = 0"
    by simp
  from exhausted exhausted_chain_eval have kept:
    "getRetryAttempts (errorHandler after_first_call) ''providerA''
       \<le> getRetryAttempts
            (errorHandler (snd (searchEngineWithErrorHandling ''providerA'' ''cats'' ''en''
                                  after_first_call))) ''providerA''"
    by simp
  from exhausted hyp have once:
    "searchCalls ''providerA''
        (drop (length (trace after_first_call))
           (trace (snd (searchAll ''cats'' ''en'' after_first_call)))) \<le> 1
     \<and> delaysOf ''providerA''
        (drop (length (trace after_first_call))
           (trace (snd (searchAll ''cats'' ''en'' after_first_call)))) = []"
    by blast
  from two zero three kept once show ?thesis by blast
qed

end
